theory Spec2Isabelle
  imports Complex_Main "HOL-Library.Word"
begin

section \<open>Memory search test harness (scripts/test-memory-search.py)\<close>

text \<open>
  The harness is one Python module. Its functions are embedded one by one, under their
  source names. Conventions of the embedding:
  \<^item> a Python \<open>float\<close> is a \<open>pyfloat\<close>: a real number, an infinity or NaN. Arithmetic
    on finite values is exact: rounding and overflow of finite arithmetic, and the sign
    of zero, are outside the model. \<open>round(x, 4)\<close> is rounding to four decimals, ties
    to even;
  \<^item> a Python \<open>str\<close> is a \<open>string\<close>; \<open>lower()\<close> is modelled on ASCII letters;
  \<^item> every exception the module can meet, \<open>SystemExit\<close> included, is a value of
    \<open>py_exc\<close>, and a function that can raise returns \<open>py_exc + 'a\<close>;
  \<^item> what the process does to the outside (printing, the embeddings request, the
    queries on the store, sleeping) is a list of events returned next to the result.
\<close>

subsection \<open>Exceptions\<close>

text \<open>
  \<open>SystemExit n\<close> is what \<open>sys.exit(n)\<close> raises; reaching the top level, it ends the
  process with exit code \<open>n\<close>. Any other exception reaching the top level ends the
  process with a traceback and exit code 1.
\<close>

datatype py_exc =
    SystemExit int
  | URLError string
  | HTTPError int
  | TimeoutError
  | JSONDecodeError
  | KeyError string
  | IndexError
  | TypeError
  | ValueError
  | OverflowError
  | StructError
  | ZeroDivisionError
  | OperationalError string


text \<open>\<open>except URLError\<close> catches \<open>URLError\<close> and its subclass \<open>HTTPError\<close>.\<close>

fun is_URLError :: "py_exc \<Rightarrow> bool" where
  "is_URLError (URLError _) = True"
| "is_URLError (HTTPError _) = True"
| "is_URLError _ = False"

text \<open>\<open>except Exception\<close> catches everything but \<open>SystemExit\<close> (a \<open>BaseException\<close>).\<close>

fun is_Exception :: "py_exc \<Rightarrow> bool" where
  "is_Exception (SystemExit _) = False"
| "is_Exception _ = True"

subsection \<open>Strings\<close>

text \<open>\<open>s.lower()\<close>, on ASCII letters.\<close>

definition lower_char :: "char \<Rightarrow> char" where
  "lower_char c =
     (if 65 \<le> (of_char c :: nat) \<and> (of_char c :: nat) \<le> 90
      then char_of ((of_char c :: nat) + 32) else c)"

definition lower :: "string \<Rightarrow> string" where
  "lower s = map lower_char s"

text \<open>\<open>needle in haystack\<close> on strings: the needle occurs as a contiguous run.\<close>

fun str_in :: "string \<Rightarrow> string \<Rightarrow> bool" where
  "str_in needle [] = (needle = [])"
| "str_in needle (c # cs) =
     (take (length needle) (c # cs) = needle \<or> str_in needle cs)"

text \<open>\<open>s.split()\<close>: split at runs of whitespace, no empty words.\<close>

definition is_space :: "char \<Rightarrow> bool" where
  "is_space c = ((of_char c :: nat) \<in> {9, 10, 11, 12, 13, 28, 29, 30, 31, 32})"

fun split_from :: "string \<Rightarrow> string \<Rightarrow> string list" where
  "split_from word [] = (if word = [] then [] else [word])"
| "split_from word (c # cs) =
     (if is_space c
      then (if word = [] then split_from [] cs else word # split_from [] cs)
      else split_from (word @ [c]) cs)"

definition split :: "string \<Rightarrow> string list" where
  "split s = split_from [] s"

text \<open>\<open>sep.join(words)\<close>.\<close>

fun join :: "string \<Rightarrow> string list \<Rightarrow> string" where
  "join sep [] = []"
| "join sep [w] = w"
| "join sep (w # v # ws) = w @ sep @ join sep (v # ws)"


subsection \<open>Numbers\<close>

text \<open>
  A Python float: a real number, plus or minus infinity, or NaN. The two zeros are one
  value.
\<close>

datatype pyfloat = Num real | PInf | NInf | NaN

text \<open>
  The comparisons \<open><=\<close> and \<open><\<close> of floats: every comparison with NaN is false.
\<close>

instantiation pyfloat :: ord
begin

fun less_eq_pyfloat :: "pyfloat \<Rightarrow> pyfloat \<Rightarrow> bool" where
  "less_eq_pyfloat NaN y = False"
| "less_eq_pyfloat x NaN = False"
| "less_eq_pyfloat NInf y = True"
| "less_eq_pyfloat x PInf = True"
| "less_eq_pyfloat PInf y = False"
| "less_eq_pyfloat x NInf = False"
| "less_eq_pyfloat (Num x) (Num y) = (x \<le> y)"

definition less_pyfloat :: "pyfloat \<Rightarrow> pyfloat \<Rightarrow> bool" where
  "less_pyfloat x y = (x \<le> y \<and> x \<noteq> y)"

instance ..

end

text \<open>\<open>-x\<close>, \<open>x + y\<close>, \<open>x - y\<close>, \<open>x * y\<close> on floats.\<close>

fun pf_neg :: "pyfloat \<Rightarrow> pyfloat" where
  "pf_neg (Num x) = Num (- x)"
| "pf_neg PInf = NInf"
| "pf_neg NInf = PInf"
| "pf_neg NaN = NaN"

fun pf_add :: "pyfloat \<Rightarrow> pyfloat \<Rightarrow> pyfloat" where
  "pf_add NaN y = NaN"
| "pf_add x NaN = NaN"
| "pf_add PInf NInf = NaN"
| "pf_add NInf PInf = NaN"
| "pf_add PInf y = PInf"
| "pf_add x PInf = PInf"
| "pf_add NInf y = NInf"
| "pf_add x NInf = NInf"
| "pf_add (Num x) (Num y) = Num (x + y)"

definition pf_sub :: "pyfloat \<Rightarrow> pyfloat \<Rightarrow> pyfloat" where
  "pf_sub x y = pf_add x (pf_neg y)"

text \<open>An infinity times a finite number: NaN for zero, else the product of the signs.\<close>

definition inf_times :: "bool \<Rightarrow> real \<Rightarrow> pyfloat" where
  "inf_times positive x =
     (if x = 0 then NaN else if (0 < x) = positive then PInf else NInf)"

fun pf_mul :: "pyfloat \<Rightarrow> pyfloat \<Rightarrow> pyfloat" where
  "pf_mul NaN y = NaN"
| "pf_mul x NaN = NaN"
| "pf_mul (Num x) (Num y) = Num (x * y)"
| "pf_mul (Num x) PInf = inf_times True x"
| "pf_mul (Num x) NInf = inf_times False x"
| "pf_mul PInf (Num y) = inf_times True y"
| "pf_mul NInf (Num y) = inf_times False y"
| "pf_mul PInf PInf = PInf"
| "pf_mul PInf NInf = NInf"
| "pf_mul NInf PInf = NInf"
| "pf_mul NInf NInf = PInf"

text \<open>
  \<open>x / y\<close> on floats: \<open>ZeroDivisionError\<close> on a zero divisor, whatever the dividend.
\<close>

fun pf_truediv :: "pyfloat \<Rightarrow> pyfloat \<Rightarrow> py_exc + pyfloat" where
  "pf_truediv x (Num y) =
     (if y = 0 then Inl ZeroDivisionError
      else case x of
             Num a \<Rightarrow> Inr (Num (a / y))
           | PInf \<Rightarrow> Inr (inf_times True y)
           | NInf \<Rightarrow> Inr (inf_times False y)
           | NaN \<Rightarrow> Inr NaN)"
| "pf_truediv (Num x) PInf = Inr (Num 0)"
| "pf_truediv (Num x) NInf = Inr (Num 0)"
| "pf_truediv x y = Inr NaN"

text \<open>
  \<open>x ** 0.5\<close>. It is applied to sums of squares only, which are never negative and
  never minus infinity.
\<close>

fun pf_sqrt :: "pyfloat \<Rightarrow> pyfloat" where
  "pf_sqrt (Num x) = Num (sqrt x)"
| "pf_sqrt PInf = PInf"
| "pf_sqrt NInf = PInf"
| "pf_sqrt NaN = NaN"

text \<open>\<open>sum(xs)\<close>: from 0, adding from the left.\<close>

definition pf_sum :: "pyfloat list \<Rightarrow> pyfloat" where
  "pf_sum xs = foldl pf_add (Num 0) xs"

text \<open>\<open>round(x, 4)\<close>: to four decimals, a tie going to the even neighbour.\<close>

definition round4 :: "real \<Rightarrow> real" where
  "round4 x =
     (let y = x * 10000; f = \<lfloor>y\<rfloor>
      in (if y - of_int f < 1 / 2 then of_int f
          else if 1 / 2 < y - of_int f then of_int f + 1
          else if even f then of_int f else of_int f + 1) / 10000)"

fun pf_round4 :: "pyfloat \<Rightarrow> pyfloat" where
  "pf_round4 (Num x) = Num (round4 x)"
| "pf_round4 x = x"

text \<open>
  \<open>int(x)\<close> on a float: truncation towards zero; \<open>ValueError\<close> on NaN and
  \<open>OverflowError\<close> on an infinity.
\<close>

definition py_int :: "real \<Rightarrow> int" where
  "py_int x = (if 0 \<le> x then \<lfloor>x\<rfloor> else \<lceil>x\<rceil>)"

fun pf_int :: "pyfloat \<Rightarrow> py_exc + int" where
  "pf_int (Num x) = Inr (py_int x)"
| "pf_int NaN = Inl ValueError"
| "pf_int x = Inl OverflowError"

text \<open>
  \<open>min(xs)\<close> keeps the first element and replaces it by each later one that is smaller;
  it raises \<open>ValueError\<close> on an empty list. \<open>max(x, y)\<close> is \<open>y\<close> where \<open>y\<close> is
  greater, else \<open>x\<close>.
\<close>

fun py_min :: "pyfloat list \<Rightarrow> py_exc + pyfloat" where
  "py_min [] = Inl ValueError"
| "py_min (x # xs) = Inr (fold (\<lambda>item lowest. if item < lowest then item else lowest) xs x)"

definition py_max :: "pyfloat \<Rightarrow> pyfloat \<Rightarrow> pyfloat" where
  "py_max x y = (if x < y then y else x)"

subsection \<open>Similarity scorer\<close>

text \<open>
  \<^verbatim>\<open>
  def cosine_similarity(a, b):
      dot = sum(x * y for x, y in zip(a, b))
      norm_a = sum(x * x for x in a) ** 0.5
      norm_b = sum(x * x for x in b) ** 0.5
      if norm_a == 0 or norm_b == 0:
          return 0.0
      return dot / (norm_a * norm_b)
  \<close>
  The division raises \<open>ZeroDivisionError\<close> on a zero divisor; the model keeps that branch.
  \<open>cosine_similarity\<close> is the function on lists of finite numbers.
\<close>

definition py_truediv :: "real \<Rightarrow> real \<Rightarrow> py_exc + real" where
  "py_truediv x y = (if y = 0 then Inl ZeroDivisionError else Inr (x / y))"

definition cosine_similarity :: "real list \<Rightarrow> real list \<Rightarrow> py_exc + real" where
  "cosine_similarity a b =
     (let dot = sum_list (map (\<lambda>(x, y). x * y) (zip a b));
          norm_a = sqrt (sum_list (map (\<lambda>x. x * x) a));
          norm_b = sqrt (sum_list (map (\<lambda>x. x * x) b))
      in if norm_a = 0 \<or> norm_b = 0 then Inr 0
         else py_truediv dot (norm_a * norm_b))"

text \<open>
  \<open>cosine_similarity_f\<close> is the same function, line by line, on lists that may also hold
  infinities and NaN, as a stored embedding can. The vector search calls this one. On
  lists of finite numbers the two agree (lemma \<open>cosine_similarity_f_Num\<close> below).
\<close>

definition cosine_similarity_f :: "pyfloat list \<Rightarrow> pyfloat list \<Rightarrow> py_exc + pyfloat" where
  "cosine_similarity_f a b =
     (let dot = pf_sum (map (\<lambda>(x, y). pf_mul x y) (zip a b));
          norm_a = pf_sqrt (pf_sum (map (\<lambda>x. pf_mul x x) a));
          norm_b = pf_sqrt (pf_sum (map (\<lambda>x. pf_mul x x) b))
      in if norm_a = Num 0 \<or> norm_b = Num 0 then Inr (Num 0)
         else pf_truediv dot (pf_mul norm_a norm_b))"

subsection \<open>Packed binary32\<close>






subsection \<open>Configuration\<close>

definition EMBEDDING_MODEL :: string where
  "EMBEDDING_MODEL = ''text-embedding-3-small''"

definition SCOPE_PREFIX :: string where
  "SCOPE_PREFIX = ''memory/customers/test-customer''"

definition MIN_SCORE_DEFAULT :: pyfloat where
  "MIN_SCORE_DEFAULT = Num (35 / 100)"

definition MAX_RESULTS :: nat where
  "MAX_RESULTS = 5"

subsection \<open>The store and the outside world\<close>

type_synonym byte = "8 word"

text \<open>A value of a column of the store, as the SQLite driver hands it to Python.\<close>

datatype sql_value = Null | Integer int | Real real | Text string | Blob "byte list"

text \<open>
  A row of \<open>SELECT id, text, path, start_line, end_line, embedding FROM chunks\<close>, and a
  row of \<open>SELECT text, path, start_line, end_line, rank FROM chunks_fts\<close>. The columns
  other than \<open>embedding\<close> have the types of the schema: texts and whole numbers.
\<close>

type_synonym chunk_row = "int \<times> string \<times> string \<times> int \<times> int \<times> sql_value"
type_synonym fts_row = "string \<times> string \<times> int \<times> int \<times> real"

text \<open>
  Everything the module reads from outside itself. The two keys and the store path are
  the module's globals, read from the environment when it is loaded (an unset variable
  reads as the empty string). \<open>embeddings_api url key model input\<close> is the outcome of
  the body of the \<open>try\<close> in \<open>get_embedding\<close> for that request: the embedding found at
  \<open>data["data"][0]["embedding"]\<close>, or the exception raised by \<open>urlopen\<close>, by
  \<open>resp.read()\<close>, by \<open>json.loads\<close> or by the subscripts. \<open>connect\<close> is
  \<open>sqlite3.connect\<close>; \<open>count_chunks\<close>, \<open>count_files\<close>, \<open>select_chunks\<close> and
  \<open>select_fts\<close> are the answers of the store to the module's four queries; each of
  them may raise (a file that is no store, a store without the tables).
  \<open>json_loads\<close> and \<open>py_float\<close> stand for \<open>json.loads\<close> on a stored embedding and
  for \<open>float\<close> on a command-line argument. \<open>f32_bytes\<close> and \<open>unpack_f\<close> stand for the
  byte layout of \<open>struct\<close>: the four little-endian bytes written for a binary32, and
  the number read from four bytes. \<open>elapsed_ms\<close> is the time measured around the
  embedding call of a query. \<open>nan_order reverse keys\<close> stands for \<open>list.sort\<close> and
  \<open>sorted\<close> on keys that hold a NaN: comparisons with NaN are all false, the keys are
  not ordered by them, and the order CPython's merge sort leaves is taken from the world,
  as the list of the positions of the elements in the sorted list.
\<close>

record world =
  OPENAI_API_KEY :: string
  OPENROUTER_API_KEY :: string
  DB_PATH :: string
  argv :: "string list"
  path_exists :: "string \<Rightarrow> bool"
  embeddings_api :: "string \<Rightarrow> string \<Rightarrow> string \<Rightarrow> string \<Rightarrow> py_exc + pyfloat list"
  elapsed_ms :: "string \<Rightarrow> int"
  connect :: "string \<Rightarrow> py_exc + unit"
  select_chunks :: "string \<Rightarrow> string \<Rightarrow> py_exc + chunk_row list"
  select_fts :: "string \<Rightarrow> string \<Rightarrow> nat \<Rightarrow> py_exc + fts_row list"
  count_chunks :: "string \<Rightarrow> py_exc + int"
  count_files :: "string \<Rightarrow> py_exc + int"
  json_loads :: "string \<Rightarrow> py_exc + pyfloat list"
  f32_bytes :: "pyfloat \<Rightarrow> byte list"
  unpack_f :: "byte list \<Rightarrow> pyfloat"
  py_float :: "string \<Rightarrow> py_exc + pyfloat"
  nan_order :: "bool \<Rightarrow> pyfloat list \<Rightarrow> nat list"

subsection \<open>Sorting\<close>

text \<open>
  \<open>list.sort\<close> and \<open>sorted\<close> with a key: a stable sort, ascending, or descending
  with \<open>reverse=True\<close>, which also keeps elements with equal keys in their original
  order. \<open>insort_by\<close> puts an element in front of a sorted list of the elements that
  followed it: behind those that go strictly before it, in front of its equals.
\<close>

fun insort_by :: "bool \<Rightarrow> ('a \<Rightarrow> pyfloat) \<Rightarrow> 'a \<Rightarrow> 'a list \<Rightarrow> 'a list" where
  "insort_by reverse key x [] = [x]"
| "insort_by reverse key x (y # ys) =
     (if (if reverse then key x < key y else key y < key x)
      then y # insort_by reverse key x ys
      else x # y # ys)"

definition reorder :: "nat list \<Rightarrow> 'a list \<Rightarrow> 'a list" where
  "reorder positions xs = map (\<lambda>i. xs ! i) (filter (\<lambda>i. i < length xs) positions)"

definition py_sorted :: "world \<Rightarrow> bool \<Rightarrow> ('a \<Rightarrow> pyfloat) \<Rightarrow> 'a list \<Rightarrow> 'a list" where
  "py_sorted w reverse key xs =
     (if NaN \<in> set (map key xs) then reorder (nan_order w reverse (map key xs)) xs
      else foldr (insort_by reverse key) xs [])"

subsection \<open>Search results and test results\<close>

text \<open>The dictionaries built by \<open>search_vector\<close>; \<open>lines\<close> keeps the two numbers apart.\<close>

record vec_result =
  score :: pyfloat
  path :: string
  lines :: "int \<times> int"
  text' :: string

text \<open>
  The dictionaries built by \<open>search_fts\<close>: a hit, or the single \<open>{"error": str(e)}\<close>.
\<close>

datatype fts_result =
    Fts_hit string string "int \<times> int" real
  | Fts_error py_exc

text \<open>\<open>r.get("text", default)\<close> on such a dictionary.\<close>

fun get_text :: "fts_result \<Rightarrow> string \<Rightarrow> string" where
  "get_text (Fts_hit t p l k) d = t"
| "get_text (Fts_error e) d = d"

text \<open>
  The dictionary returned by \<open>run_test\<close>. A skipped case has the keys \<open>status\<close> and
  \<open>query\<close> only; a missing key is \<open>None\<close>.
\<close>

record result =
  status :: string
  query :: string
  top_score :: "pyfloat option"
  above_threshold :: "nat option"
  embed_ms :: "int option"

type_synonym test_case = "string \<times> string \<times> string"

subsection \<open>Effects\<close>

text \<open>
  One constructor for each \<open>print\<close> of the module, with the values it formats: first
  the lines of \<open>get_embedding\<close> and \<open>run_test\<close>, then the lines of \<open>main\<close>.
\<close>

datatype test_line =
    Err_no_key
  | Embedding_api_error py_exc
  | Rule_double
  | Rule_single
  | Query_is string
  | Expect_is string
  | Desc_is string
  | Skip_line int
  | Vector_header nat int
  | Vector_hit bool nat pyfloat bool string "int \<times> int"
  | Preview string
  | Fts_header nat
  | Fts_line bool nat fts_result
  | Fts_preview fts_result
  | Result_is string
  | Top_score_is pyfloat pyfloat
  | Above_is nat nat
  | Found_below pyfloat pyfloat

datatype main_line =
    Title
  | Db_is string
  | Scope_is string
  | Min_score_is pyfloat
  | Embedding_is string
  | Tests_is nat
  | Err_db_missing string
  | Indexed int int
  | Summary_rule
  | Summary_title
  | Pass_count nat nat
  | Fail_count nat nat
  | Below_count nat nat pyfloat
  | Skip_count nat nat
  | Recommendation
  | Lowest_matching pyfloat
  | Suggested_threshold pyfloat
  | Distribution_title
  | Distribution_line string pyfloat nat string

datatype event =
    Print test_line
  | Print_main main_line
  | Urlopen string string string string
  | Connect string
  | Execute_count_chunks string
  | Execute_count_files string
  | Execute_chunks string string
  | Execute_fts string string nat
  | Sleep
  | Close

text \<open>
  A computation with effects: the events it caused, in order, and its result or the
  exception that ended it.
\<close>

type_synonym 'a io = "event list \<times> (py_exc + 'a)"

definition ret :: "'a \<Rightarrow> 'a io" where
  "ret x = ([], Inr x)"

definition raise :: "py_exc \<Rightarrow> 'a io" where
  "raise e = ([], Inl e)"

definition emit :: "event list \<Rightarrow> 'a io \<Rightarrow> 'a io" where
  "emit es m = (es @ fst m, snd m)"

definition bind_io :: "'a io \<Rightarrow> ('a \<Rightarrow> 'b io) \<Rightarrow> 'b io" where
  "bind_io m f =
     (case snd m of
        Inl e \<Rightarrow> (fst m, Inl e)
      | Inr x \<Rightarrow> emit (fst m) (f x))"

definition lift :: "py_exc + 'a \<Rightarrow> 'a io" where
  "lift r = ([], r)"

subsection \<open>Embedding client\<close>

text \<open>
  \<^verbatim>\<open>
  def get_embedding(text):
      """Get embedding from OpenAI API (or OpenRouter)."""
      if OPENROUTER_API_KEY:
          url = "https://openrouter.ai/api/v1/embeddings"; key = OPENROUTER_API_KEY
      elif OPENAI_API_KEY:
          url = "https://api.openai.com/v1/embeddings"; key = OPENAI_API_KEY
      else:
          print("ERROR: No OPENAI_API_KEY or OPENROUTER_KEY set"); sys.exit(1)
      ...
      try:
          with urlopen(req, timeout=15) as resp:
              data = json.loads(resp.read())
              return data["data"][0]["embedding"]
      except URLError as e:
          print(f"  Embedding API error: {e}")
          return []
  \<close>
\<close>

text \<open>The first conditional: the url and the key, or \<open>None\<close> where the module exits.\<close>

definition endpoint :: "world \<Rightarrow> (string \<times> string) option" where
  "endpoint w =
     (if OPENROUTER_API_KEY w \<noteq> []
      then Some (''https://openrouter.ai/api/v1/embeddings'', OPENROUTER_API_KEY w)
      else if OPENAI_API_KEY w \<noteq> []
      then Some (''https://api.openai.com/v1/embeddings'', OPENAI_API_KEY w)
      else None)"

definition get_embedding :: "world \<Rightarrow> string \<Rightarrow> pyfloat list io" where
  "get_embedding w text =
     (case endpoint w of
        None \<Rightarrow> emit [Print Err_no_key] (raise (SystemExit 1))
      | Some (url, key) \<Rightarrow>
          emit [Urlopen url key EMBEDDING_MODEL text]
            (case embeddings_api w url key EMBEDDING_MODEL text of
               Inr embedding \<Rightarrow> ret embedding
             | Inl e \<Rightarrow>
                 if is_URLError e then emit [Print (Embedding_api_error e)] (ret [])
                 else raise e))"


subsection \<open>Stored embeddings\<close>

text \<open>
  \<open>struct.unpack(f"<{n}f", blob)\<close>: \<open>struct.error\<close> unless the buffer holds exactly
  \<open>4 * n\<close> bytes, else the \<open>n\<close> numbers read from its groups of four bytes.
\<close>

fun groups_of_4 :: "'a list \<Rightarrow> 'a list list" where
  "groups_of_4 (a # b # c # d # rest) = [a, b, c, d] # groups_of_4 rest"
| "groups_of_4 _ = []"

definition struct_unpack :: "world \<Rightarrow> nat \<Rightarrow> byte list \<Rightarrow> py_exc + pyfloat list" where
  "struct_unpack w n blob =
     (if length blob = 4 * n then Inr (map (unpack_f w) (groups_of_4 blob))
      else Inl StructError)"

text \<open>
  \<^verbatim>\<open>
  def blob_to_vec(blob):
      if isinstance(blob, str):
          return json.loads(blob)
      if isinstance(blob, bytes):
          n = len(blob) // 4
          return list(struct.unpack(f"<{n}f", blob))
      return []
  \<close>
\<close>

fun blob_to_vec :: "world \<Rightarrow> sql_value \<Rightarrow> py_exc + pyfloat list" where
  "blob_to_vec w (Text s) = json_loads w s"
| "blob_to_vec w (Blob blob) = struct_unpack w (length blob div 4) blob"
| "blob_to_vec w _ = Inr []"



text \<open>\<open>not v\<close> on a column value.\<close>

fun falsy :: "sql_value \<Rightarrow> bool" where
  "falsy Null = True"
| "falsy (Integer i) = (i = 0)"
| "falsy (Real r) = (r = 0)"
| "falsy (Text s) = (s = [])"
| "falsy (Blob b) = (b = [])"

subsection \<open>Lexical searcher\<close>

text \<open>
  \<^verbatim>\<open>
  def search_fts(db, query, prefix, limit=20):
      words = query.split()
      fts_query = " OR ".join(w for w in words if len(w) > 2)
      if not fts_query:
          fts_query = query
      try:
          rows = db.execute("SELECT text, path, start_line, end_line, rank FROM chunks_fts "
                            "WHERE chunks_fts MATCH ? AND path LIKE ? ORDER BY rank LIMIT ?",
                            (fts_query, f"{prefix}/%", limit)).fetchall()
          return [{"text": r[0][:200], "path": r[1], "lines": f"{r[2]}-{r[3]}",
                   "fts_rank": r[4]} for r in rows]
      except Exception as e:
          return [{"error": str(e)}]
  \<close>
\<close>

definition search_fts :: "world \<Rightarrow> string \<Rightarrow> string \<Rightarrow> nat \<Rightarrow> fts_result list io" where
  "search_fts w query' prefix limit =
     (let words = split query';
          joined = join '' OR '' (filter (\<lambda>w. 2 < length w) words);
          fts_query = (if joined = [] then query' else joined)
      in emit [Execute_fts fts_query (prefix @ ''/%'') limit]
           (case select_fts w fts_query (prefix @ ''/%'') limit of
              Inr rows \<Rightarrow>
                ret (map (\<lambda>(t, p, s, e, k). Fts_hit (take 200 t) p (s, e) k) rows)
            | Inl e \<Rightarrow> if is_Exception e then ret [Fts_error e] else raise e))"


subsection \<open>Vector search\<close>

text \<open>
  \<^verbatim>\<open>
  def search_vector(db, query_vec, prefix, limit=20):
      rows = db.execute("SELECT id, text, path, start_line, end_line, embedding FROM chunks "
                        "WHERE model = ? AND path LIKE ?",
                        (EMBEDDING_MODEL, f"{prefix}/%")).fetchall()
      scored = []
      for row in rows:
          chunk_id, text, path, start, end, emb_blob = row
          if not emb_blob:
              continue
          chunk_vec = blob_to_vec(emb_blob)
          score = cosine_similarity(query_vec, chunk_vec)
          scored.append({"score": round(score, 4), "path": path,
                         "lines": f"{int(start)}-{int(end)}", "text": text[:200]})
      scored.sort(key=lambda x: x["score"], reverse=True)
      return scored[:limit]
  \<close>
  The loop is \<open>score_rows\<close>. The query runs outside any \<open>try\<close>.
\<close>

fun score_rows :: "world \<Rightarrow> pyfloat list \<Rightarrow> chunk_row list \<Rightarrow> py_exc + vec_result list" where
  "score_rows w query_vec [] = Inr []"
| "score_rows w query_vec ((chunk_id, text, p, start, end, emb_blob) # rows) =
     (if falsy emb_blob then score_rows w query_vec rows
      else case blob_to_vec w emb_blob of
             Inl e \<Rightarrow> Inl e
           | Inr chunk_vec \<Rightarrow>
               (case cosine_similarity_f query_vec chunk_vec of
                  Inl e \<Rightarrow> Inl e
                | Inr s \<Rightarrow>
                    (case score_rows w query_vec rows of
                       Inl e \<Rightarrow> Inl e
                     | Inr scored \<Rightarrow>
                         Inr (\<lparr>score = pf_round4 s, path = p, lines = (start, end),
                               text' = take 200 text\<rparr> # scored))))"

definition search_vector :: "world \<Rightarrow> pyfloat list \<Rightarrow> string \<Rightarrow> nat \<Rightarrow> vec_result list io" where
  "search_vector w query_vec prefix limit =
     emit [Execute_chunks EMBEDDING_MODEL (prefix @ ''/%'')]
       (case select_chunks w EMBEDDING_MODEL (prefix @ ''/%'') of
          Inl e \<Rightarrow> raise e
        | Inr rows \<Rightarrow>
            (case score_rows w query_vec rows of
               Inl e \<Rightarrow> raise e
             | Inr scored \<Rightarrow> ret (take limit (py_sorted w True score scored))))"

subsection \<open>Evaluator\<close>

text \<open>
  \<^verbatim>\<open>
  def run_test(db, query, expected, description, min_score):
      ... five header lines ...
      t0 = time.time()
      query_vec = get_embedding(query)
      embed_ms = int((time.time() - t0) * 1000)
      if not query_vec:
          print(f"  SKIP: Could not get embedding ({embed_ms}ms)")
          return {"status": "skip", "query": query}
      vec_results = search_vector(db, query_vec, SCOPE_PREFIX, limit=MAX_RESULTS)
      fts_results = search_fts(db, query, SCOPE_PREFIX, limit=MAX_RESULTS)
      vec_pass = any(expected.lower() in r["text"].lower()
                     for r in vec_results if r["score"] >= min_score)
      vec_any = any(expected.lower() in r["text"].lower() for r in vec_results)
      fts_pass = any(expected.lower() in r.get("text", "").lower() for r in fts_results)
      top_score = vec_results[0]["score"] if vec_results else 0
      above_threshold = [r for r in vec_results if r["score"] >= min_score]
      status = "PASS" if vec_pass or fts_pass else "FAIL"
      if not vec_pass and vec_any:
          status = "BELOW_THRESHOLD"
      ... the diagnostic lines ...
      return {"status": status, "query": query, "top_score": top_score,
              "above_threshold": len(above_threshold), "embed_ms": embed_ms}
  \<close>
\<close>

definition vector_lines :: "string \<Rightarrow> pyfloat \<Rightarrow> vec_result list \<Rightarrow> event list" where
  "vector_lines expected min_score vec_results =
     concat (map (\<lambda>(i, r).
       [Print (Vector_hit (str_in (lower expected) (lower (text' r))) (i + 1) (score r)
                 (min_score \<le> score r) (path r) (lines r)),
        Print (Preview (take 120 (text' r)))])
       (enumerate 0 (take MAX_RESULTS vec_results)))"

definition fts_lines :: "string \<Rightarrow> fts_result list \<Rightarrow> event list" where
  "fts_lines expected fts_results =
     concat (map (\<lambda>(i, r).
       [Print (Fts_line (str_in (lower expected) (lower (get_text r []))) (i + 1) r),
        Print (Fts_preview r)])
       (enumerate 0 (take 3 fts_results)))"

definition run_test :: "world \<Rightarrow> string \<Rightarrow> string \<Rightarrow> string \<Rightarrow> pyfloat \<Rightarrow> result io" where
  "run_test w query' expected description min_score =
     emit [Print Rule_double, Print (Query_is query'), Print (Expect_is expected),
           Print (Desc_is description), Print Rule_single]
       (bind_io (get_embedding w query') (\<lambda>query_vec.
          let embed_ms = elapsed_ms w query' in
          if query_vec = []
          then emit [Print (Skip_line embed_ms)]
                 (ret \<lparr>status = ''skip'', query = query', top_score = None,
                        above_threshold = None, embed_ms = None\<rparr>)
          else
            bind_io (search_vector w query_vec SCOPE_PREFIX MAX_RESULTS) (\<lambda>vec_results.
            bind_io (search_fts w query' SCOPE_PREFIX MAX_RESULTS) (\<lambda>fts_results.
              let vec_pass = list_ex (\<lambda>r. str_in (lower expected) (lower (text' r)))
                               (filter (\<lambda>r. min_score \<le> score r) vec_results);
                  vec_any = list_ex (\<lambda>r. str_in (lower expected) (lower (text' r)))
                              vec_results;
                  fts_pass = list_ex (\<lambda>r. str_in (lower expected) (lower (get_text r [])))
                               fts_results;
                  top_score = (case vec_results of [] \<Rightarrow> Num 0 | r # _ \<Rightarrow> score r);
                  above_threshold = filter (\<lambda>r. min_score \<le> score r) vec_results;
                  status0 = (if vec_pass \<or> fts_pass then ''PASS'' else ''FAIL'');
                  status = (if \<not> vec_pass \<and> vec_any then ''BELOW_THRESHOLD'' else status0)
              in emit
                   ([Print (Vector_header MAX_RESULTS embed_ms)]
                    @ vector_lines expected min_score vec_results
                    @ [Print (Fts_header (min 3 (length fts_results)))]
                    @ fts_lines expected fts_results
                    @ [Print (Result_is status),
                       Print (Top_score_is top_score min_score),
                       Print (Above_is (length above_threshold) (length vec_results))]
                    @ (if status = ''BELOW_THRESHOLD''
                       then [Print (Found_below
                               (case filter (\<lambda>r. str_in (lower expected) (lower (text' r)))
                                       vec_results of
                                  [] \<Rightarrow> Num 0 | r # _ \<Rightarrow> score r)
                               min_score)]
                       else []))
                   (ret \<lparr>status = status, query = query', top_score = Some top_score,
                          above_threshold = Some (length above_threshold),
                          embed_ms = Some embed_ms\<rparr>)))))"


subsection \<open>Reporter\<close>

text \<open>
  The loop of \<open>main\<close>:
  \<^verbatim>\<open>
  results = []
  for query, expected, desc in TEST_CASES:
      result = run_test(db, query, expected, desc, min_score)
      results.append(result)
      time.sleep(0.2)
  \<close>
\<close>

fun run_tests :: "world \<Rightarrow> test_case list \<Rightarrow> pyfloat \<Rightarrow> result list io" where
  "run_tests w [] min_score = ret []"
| "run_tests w ((query', expected, desc) # cases) min_score =
     bind_io (run_test w query' expected desc min_score) (\<lambda>result.
       emit [Sleep]
         (bind_io (run_tests w cases min_score) (\<lambda>results. ret (result # results))))"

text \<open>
  \<open>[r["top_score"] for r in results if r["status"] == "BELOW_THRESHOLD"]\<close>; the
  subscript raises \<open>KeyError\<close> on a dictionary without the key.
\<close>

fun below_scores :: "result list \<Rightarrow> py_exc + pyfloat list" where
  "below_scores [] = Inr []"
| "below_scores (r # rs) =
     (if status r = ''BELOW_THRESHOLD''
      then (case top_score r of
              None \<Rightarrow> Inl (KeyError ''top_score'')
            | Some s \<Rightarrow>
                (case below_scores rs of Inl e \<Rightarrow> Inl e | Inr scores \<Rightarrow> Inr (s # scores)))
      else below_scores rs)"

text \<open>
  \<^verbatim>\<open>
  if below > 0:
      print(f"\n  Recommendation: Lower minScore to capture more matches.")
      scores = [r["top_score"] for r in results if r["status"] == "BELOW_THRESHOLD"]
      if scores:
          print(f"  Lowest matching score: {min(scores)}")
          print(f"  Suggested threshold: {max(0.15, min(scores) - 0.05):.2f}")
  \<close>
\<close>

definition recommendation :: "result list \<Rightarrow> nat \<Rightarrow> unit io" where
  "recommendation results below =
     (if 0 < below
      then emit [Print_main Recommendation]
             (bind_io (lift (below_scores results)) (\<lambda>scores.
                if scores \<noteq> []
                then bind_io (lift (py_min scores)) (\<lambda>lowest.
                       emit [Print_main (Lowest_matching lowest),
                             Print_main (Suggested_threshold
                               (py_max (Num (15 / 100)) (pf_sub lowest (Num (5 / 100)))))]
                         (ret ()))
                else ret ()))
      else ret ())"

text \<open>
  \<^verbatim>\<open>
  for r in sorted(results, key=lambda x: x.get("top_score", 0)):
      flag = {"PASS": "+", "FAIL": "X", "BELOW_THRESHOLD": "~", "skip": "?"}[r["status"]]
      score = r.get("top_score", 0)
      bar = "#" * int(score * 40) if score else ""
      print(f"  [{flag}] {score:.3f} {bar} {r['query'][:50]}")
  \<close>
  The bar is kept as its length. \<open>int\<close> raises on a score that is NaN or infinite.
\<close>

definition flag_of :: "string \<Rightarrow> string option" where
  "flag_of = map_of [(''PASS'', ''+''), (''FAIL'', ''X''), (''BELOW_THRESHOLD'', ''~''),
                     (''skip'', ''?'')]"

definition get_top_score :: "result \<Rightarrow> pyfloat \<Rightarrow> pyfloat" where
  "get_top_score r d = (case top_score r of None \<Rightarrow> d | Some s \<Rightarrow> s)"

fun distribution :: "result list \<Rightarrow> unit io" where
  "distribution [] = ret ()"
| "distribution (r # rs) =
     (case flag_of (status r) of
        None \<Rightarrow> raise (KeyError (status r))
      | Some flag \<Rightarrow>
          (let score = get_top_score r (Num 0)
           in case (if score \<noteq> Num 0 then pf_int (pf_mul score (Num 40)) else Inr 0) of
                Inl e \<Rightarrow> raise e
              | Inr bar \<Rightarrow>
                  emit [Print_main (Distribution_line flag score (nat bar) (take 50 (query r)))]
                    (distribution rs)))"

text \<open>The summary of \<open>main\<close>, from the \<open>SUMMARY\<close> banner to \<open>sys.exit\<close>.\<close>

definition summary :: "world \<Rightarrow> result list \<Rightarrow> pyfloat \<Rightarrow> unit io" where
  "summary w results min_score =
     (let n = length results;
          passed = length (filter (\<lambda>r. status r = ''PASS'') results);
          failed = length (filter (\<lambda>r. status r = ''FAIL'') results);
          below = length (filter (\<lambda>r. status r = ''BELOW_THRESHOLD'') results);
          skipped = length (filter (\<lambda>r. status r = ''skip'') results)
      in emit
           ([Print_main Summary_rule, Print_main Summary_title, Print_main Summary_rule,
             Print_main (Pass_count passed n), Print_main (Fail_count failed n),
             Print_main (Below_count below n min_score)]
            @ (if skipped \<noteq> 0 then [Print_main (Skip_count skipped n)] else []))
           (bind_io (recommendation results below) (\<lambda>_.
              emit [Print_main Distribution_title]
                (bind_io (distribution
                            (py_sorted w False (\<lambda>x. get_top_score x (Num 0)) results)) (\<lambda>_.
                   emit [Close] (raise (SystemExit (if 0 < failed then 1 else 0))))))))"

text \<open>
  \<open>main\<close>, over the list of test cases:
  \<^verbatim>\<open>
  min_score = float(sys.argv[1]) if len(sys.argv) > 1 else MIN_SCORE_DEFAULT
  ... six header lines ...
  if not os.path.exists(DB_PATH):
      print(f"\nERROR: Database not found at {DB_PATH}")
      sys.exit(1)
  db = sqlite3.connect(DB_PATH)
  chunk_count = db.execute("SELECT COUNT(*) FROM chunks WHERE path LIKE ?",
                           (f"{SCOPE_PREFIX}/%",)).fetchone()[0]
  file_count = db.execute("SELECT COUNT(*) FROM files WHERE path LIKE ?",
                          (f"{SCOPE_PREFIX}/%",)).fetchone()[0]
  print(f"Indexed: {file_count} files, {chunk_count} chunks in scope")
  ... the loop, the summary, db.close(), sys.exit(1 if failed > 0 else 0)
  \<close>
  The connection and the two counts are outside any \<open>try\<close>: what they raise ends the
  run.
\<close>

definition parse_min_score :: "world \<Rightarrow> py_exc + pyfloat" where
  "parse_min_score w =
     (case argv w of
        prog # arg # rest \<Rightarrow> py_float w arg
      | _ \<Rightarrow> Inr MIN_SCORE_DEFAULT)"

definition main_on :: "test_case list \<Rightarrow> world \<Rightarrow> unit io" where
  "main_on cases w =
     bind_io (lift (parse_min_score w)) (\<lambda>min_score.
       emit [Print_main Title, Print_main (Db_is (DB_PATH w)),
             Print_main (Scope_is SCOPE_PREFIX), Print_main (Min_score_is min_score),
             Print_main (Embedding_is EMBEDDING_MODEL), Print_main (Tests_is (length cases))]
         (if \<not> path_exists w (DB_PATH w)
          then emit [Print_main (Err_db_missing (DB_PATH w))] (raise (SystemExit 1))
          else
            emit [Connect (DB_PATH w)]
              (bind_io (lift (connect w (DB_PATH w))) (\<lambda>db.
            emit [Execute_count_chunks (SCOPE_PREFIX @ ''/%'')]
              (bind_io (lift (count_chunks w (SCOPE_PREFIX @ ''/%''))) (\<lambda>chunk_count.
            emit [Execute_count_files (SCOPE_PREFIX @ ''/%'')]
              (bind_io (lift (count_files w (SCOPE_PREFIX @ ''/%''))) (\<lambda>file_count.
            emit [Print_main (Indexed file_count chunk_count)]
              (bind_io (run_tests w cases min_score) (\<lambda>results.
                 summary w results min_score))))))))))"

text \<open>
  The test cases of the module. The arrow of the descriptions is not ASCII; it is
  written as the three bytes of its UTF-8 form.
\<close>

definition arrow :: string where
  "arrow = [CHR 0xE2, CHR 0x86, CHR 0x92]"

definition TEST_CASES :: "test_case list" where
  "TEST_CASES =
     [(''hey can I get somebody on a call to talk about this deal?'',
       ''CloudWarriors'',
       ''Presales call request '' @ arrow @ '' should ask if CW is partner''),
      (''Can I get someone to hop on a call?'',
       ''money'',
       ''Hop on a call '' @ arrow @ '' for money (trained pair #1)''),
      (''Can I get presales assistance?'',
       ''CloudWarriors is the partner'',
       ''Presales assistance '' @ arrow @ '' partner check (trained pair #2)''),
      (''there is already a partner on this deal'',
       ''minimum of $10k'',
       ''Partner exists '' @ arrow @ '' $10k minimum (trained pair #3)''),
      (''what is the minimum cost for an implementation?'',
       ''minimum engagement'',
       ''Minimum engagement pricing question''),
      (''I need an executable SOW'',
       ''SOW'',
       ''SOW request '' @ arrow @ '' should match SOW-related Q&A''),
      (''can you scope out a custom integration?'',
       ''integration'',
       ''Custom integration question''),
      (''I need a quote on CW paper'',
       ''quote'',
       ''Quote request''),
      (''Team, availability for a scoping call next week?'',
       ''scoping'',
       ''Scoping call availability (first Q&A pair in training)''),
      (''what is the deal registration status?'',
       ''deal'',
       ''Deal registration question'')]"

definition main :: "world \<Rightarrow> unit io" where
  "main w = main_on TEST_CASES w"


subsection \<open>Concrete worlds\<close>

text \<open>
  Worlds on which the theorems below are run. In \<open>bare_world\<close> no key is set, the
  store file exists and is an empty store, and the embeddings service cannot be reached.
\<close>

definition bare_world :: world where
  "bare_world =
     \<lparr>OPENAI_API_KEY = [], OPENROUTER_API_KEY = [],
      DB_PATH = ''/root/.openclaw/memory/main.sqlite'',
      argv = [''test-memory-search.py''],
      path_exists = (\<lambda>p. True),
      embeddings_api = (\<lambda>url key model text. Inl (URLError ''unreachable'')),
      elapsed_ms = (\<lambda>text. 12),
      connect = (\<lambda>p. Inr ()),
      select_chunks = (\<lambda>model pattern. Inr []),
      select_fts = (\<lambda>fts_query pattern limit. Inr []),
      count_chunks = (\<lambda>pattern. Inr 0),
      count_files = (\<lambda>pattern. Inr 0),
      json_loads = (\<lambda>s. Inl JSONDecodeError),
      f32_bytes = (\<lambda>x. [0, 0, 0, 0]),
      unpack_f = (\<lambda>bs. Num 0),
      py_float = (\<lambda>s. Inl ValueError),
      nan_order = (\<lambda>reverse keys. [0..<length keys])\<rparr>"

text \<open>
  One stored chunk holding the trained answer on money, with the embedding \<open>[7, 24]\<close>
  stored as JSON text; the query embeds to \<open>[1, 0]\<close>, so the chunk scores 0.28. The
  full-text index finds the same chunk.
\<close>

definition money_chunk :: chunk_row where
  "money_chunk =
     (1, ''A: for Money'', ''memory/customers/test-customer/training.md'', 3, 4,
      Text ''[7, 24]'')"

definition money_world :: world where
  "money_world =
     bare_world
       \<lparr>OPENAI_API_KEY := ''sk-test'',
        embeddings_api := (\<lambda>url key model text. Inr [Num 1, Num 0]),
        select_chunks := (\<lambda>model pattern. Inr [money_chunk]),
        select_fts := (\<lambda>fts_query pattern limit.
          Inr [(''A: for Money'', ''memory/customers/test-customer/training.md'', 3, 4, - 1)]),
        json_loads := (\<lambda>s. if s = ''[7, 24]'' then Inr [Num 7, Num 24]
                             else Inl JSONDecodeError)\<rparr>"

text \<open>Both keys set.\<close>

definition two_key_world :: world where
  "two_key_world =
     bare_world\<lparr>OPENAI_API_KEY := ''sk-openai'', OPENROUTER_API_KEY := ''sk-or''\<rparr>"

text \<open>A key is set and the service answers with a body that is not JSON.\<close>

definition garbled_world :: world where
  "garbled_world =
     bare_world
       \<lparr>OPENAI_API_KEY := ''sk-test'',
        embeddings_api := (\<lambda>url key model text. Inl JSONDecodeError)\<rparr>"

text \<open>A key is set and the service cannot be reached.\<close>

definition offline_world :: world where
  "offline_world = bare_world\<lparr>OPENAI_API_KEY := ''sk-test''\<rparr>"

text \<open>The stored embedding of the chunk is a buffer of five bytes.\<close>

definition truncated_world :: world where
  "truncated_world =
     money_world
       \<lparr>select_chunks := (\<lambda>model pattern.
          Inr [(1, ''A: for Money'', ''memory/customers/test-customer/training.md'', 3, 4,
                Blob [0, 0, 128, 63, 0])])\<rparr>"




section \<open>Properties\<close>

subsection \<open>Cosine similarity\<close>

lemma sum_squares_zero:
  "\<forall>x\<in>set a. x = (0::real) \<Longrightarrow> sum_list (map (\<lambda>x. x * x) a) = 0"
  by (induction a) auto

lemma sum_list_zip_nth:
  "sum_list (map (\<lambda>(x, y). x * y) (zip a b))
   = (\<Sum>i<min (length a) (length b). a ! i * b ! i :: real)"
proof -
  have "sum_list (map (\<lambda>(x, y). x * y) (zip a b))
        = (\<Sum>i<length (zip a b). (\<lambda>(x, y). x * y) (zip a b ! i))"
    by (simp add: sum_list_sum_nth atLeast0LessThan)
  also have "\<dots> = (\<Sum>i<min (length a) (length b). a ! i * b ! i)"
    by (rule sum.cong) auto
  finally show ?thesis .
qed

lemma sqrt_25: "sqrt 25 = 5"
  using real_sqrt_abs [of 5] by simp

lemma sqrt_625: "sqrt 625 = 25"
  using real_sqrt_abs [of 25] by simp

text \<open>
  C9. Where every element of one of the two vectors is zero, \<open>cosine_similarity\<close>
  returns 0; and on no pair of vectors does its division meet a zero divisor. (The
  components are finite numbers.)
\<close>

theorem cosine_similarity_zero_guard:
  "cosine_similarity a b \<noteq> Inl ZeroDivisionError
   \<and> ((\<forall>x\<in>set a. x = 0) \<or> (\<forall>x\<in>set b. x = 0) \<longrightarrow> cosine_similarity a b = Inr 0)"
proof
  show "cosine_similarity a b \<noteq> Inl ZeroDivisionError"
    by (simp add: cosine_similarity_def Let_def py_truediv_def)
  show "(\<forall>x\<in>set a. x = 0) \<or> (\<forall>x\<in>set b. x = 0) \<longrightarrow> cosine_similarity a b = Inr 0"
    by (auto simp: cosine_similarity_def Let_def sum_squares_zero)
qed

theorem cosine_similarity_zero_guard_witness:
  "((\<forall>x\<in>set [0, 0::real]. x = 0) \<or> (\<forall>x\<in>set [1, 2, 3::real]. x = 0))
   \<and> cosine_similarity [0, 0] [1, 2, 3] = Inr 0
   \<and> cosine_similarity [0, 0] [1, 2, 3] \<noteq> Inl ZeroDivisionError"
  using cosine_similarity_zero_guard [of "[0, 0]" "[1, 2, 3]"] by simp

text \<open>
  C10. On every pair of lists, of equal length or not, \<open>cosine_similarity\<close> returns a
  value and raises nothing. The value is 0 where the norm of either whole list is zero;
  elsewhere it is the sum of the products of the first \<open>min (length a) (length b)\<close>
  pairs of components, divided by the product of the norms of the two whole lists.
\<close>

theorem cosine_similarity_total:
  "(\<exists>v. cosine_similarity a b = Inr v)
   \<and> cosine_similarity a b =
       Inr (if sqrt (\<Sum>x\<leftarrow>a. x * x) = 0 \<or> sqrt (\<Sum>x\<leftarrow>b. x * x) = 0 then 0
            else (\<Sum>i<min (length a) (length b). a ! i * b ! i)
                 / (sqrt (\<Sum>x\<leftarrow>a. x * x) * sqrt (\<Sum>x\<leftarrow>b. x * x)))"
  by (simp add: cosine_similarity_def Let_def py_truediv_def sum_list_zip_nth
           del: real_sqrt_eq_zero_cancel_iff)

theorem cosine_similarity_total_witness:
  "cosine_similarity [3, 4] [1] = Inr (3 / 5) \<and> cosine_similarity [3, 4] [] = Inr 0"
  using cosine_similarity_total [of "[3, 4]" "[1]"] cosine_similarity_total [of "[3, 4]" "[]"]
  by (simp add: sqrt_25)


lemma foldl_pf_add_Num: "foldl pf_add (Num s) (map Num xs) = Num (s + sum_list xs)"
  by (induction xs arbitrary: s) (simp_all add: add.assoc)

lemma pf_sum_Num: "pf_sum (map Num xs) = Num (sum_list xs)"
  by (simp add: pf_sum_def foldl_pf_add_Num)

lemma zip_map_Num:
  "map (\<lambda>(x, y). pf_mul x y) (zip (map Num a) (map Num b))
   = map Num (map (\<lambda>(x, y). x * y) (zip a b))"
  by (simp add: zip_map_map case_prod_unfold)

lemma squares_map_Num:
  "map (\<lambda>x. pf_mul x x) (map Num a) = map Num (map (\<lambda>x. x * x) a)"
  by simp

lemma cosine_similarity_f_Num:
  "cosine_similarity_f (map Num a) (map Num b)
   = (case cosine_similarity a b of Inl e \<Rightarrow> Inl e | Inr s \<Rightarrow> Inr (Num s))"
  unfolding cosine_similarity_f_def cosine_similarity_def zip_map_Num squares_map_Num pf_sum_Num
  by (simp add: Let_def py_truediv_def del: real_sqrt_eq_zero_cancel_iff)

subsection \<open>Effects and the evaluator, case by case\<close>

lemma snd_emit: "snd (emit es m) = snd m"
  by (simp add: emit_def)

lemma fst_emit: "fst (emit es m) = es @ fst m"
  by (simp add: emit_def)

lemma snd_bind_io:
  "snd (bind_io m f) = (case snd m of Inl e \<Rightarrow> Inl e | Inr x \<Rightarrow> snd (f x))"
  by (simp add: bind_io_def emit_def split: sum.splits)

lemma fst_bind_io:
  "fst (bind_io m f) = (case snd m of Inl e \<Rightarrow> fst m | Inr x \<Rightarrow> fst m @ fst (f x))"
  by (simp add: bind_io_def emit_def split: sum.splits)

lemma snd_ret: "snd (ret x) = Inr x"
  by (simp add: ret_def)

lemma fst_ret: "fst (ret x) = []"
  by (simp add: ret_def)

lemma snd_raise: "snd (raise e) = Inl e"
  by (simp add: raise_def)

lemma fst_raise: "fst (raise e) = []"
  by (simp add: raise_def)

lemma snd_lift: "snd (lift r) = r"
  by (simp add: lift_def)

lemma fst_lift: "fst (lift r) = []"
  by (simp add: lift_def)

lemmas io_simps = snd_emit fst_emit snd_bind_io fst_bind_io snd_ret fst_ret snd_raise fst_raise
  snd_lift fst_lift



lemma run_test_skip:
  assumes "snd (get_embedding w q) = Inr []"
  shows "snd (run_test w q expected d ms)
         = Inr \<lparr>status = ''skip'', query = q, top_score = None, above_threshold = None,
                embed_ms = None\<rparr>"
  using assms by (simp add: run_test_def io_simps)

lemma run_test_scored:
  assumes "snd (get_embedding w q) = Inr v" and "v \<noteq> []"
    and "snd (search_vector w v SCOPE_PREFIX MAX_RESULTS) = Inr vs"
    and "snd (search_fts w q SCOPE_PREFIX MAX_RESULTS) = Inr fs"
  shows "snd (run_test w q expected d ms)
         = Inr \<lparr>status =
                  (if \<not> list_ex (\<lambda>r. str_in (lower expected) (lower (text' r)))
                          (filter (\<lambda>r. ms \<le> score r) vs)
                      \<and> list_ex (\<lambda>r. str_in (lower expected) (lower (text' r))) vs
                   then ''BELOW_THRESHOLD''
                   else if list_ex (\<lambda>r. str_in (lower expected) (lower (text' r)))
                             (filter (\<lambda>r. ms \<le> score r) vs)
                           \<or> list_ex (\<lambda>r. str_in (lower expected) (lower (get_text r []))) fs
                   then ''PASS'' else ''FAIL''),
                query = q,
                top_score = Some (case vs of [] \<Rightarrow> Num 0 | r # _ \<Rightarrow> score r),
                above_threshold = Some (length (filter (\<lambda>r. ms \<le> score r) vs)),
                embed_ms = Some (elapsed_ms w q)\<rparr>"
  using assms by (simp add: run_test_def io_simps Let_def)

lemma run_test_cases:
  assumes "snd (run_test w q expected d ms) = Inr r"
  obtains "snd (get_embedding w q) = Inr []"
  | v vs fs where "snd (get_embedding w q) = Inr v" "v \<noteq> []"
      "snd (search_vector w v SCOPE_PREFIX MAX_RESULTS) = Inr vs"
      "snd (search_fts w q SCOPE_PREFIX MAX_RESULTS) = Inr fs"
  using assms by (auto simp: run_test_def io_simps Let_def split: sum.splits if_splits)

lemma list_ex_filter: "list_ex P (filter Q xs) = (\<exists>x\<in>set xs. Q x \<and> P x)"
  by (auto simp: list_ex_iff)

lemma run_tests_Cons:
  "run_tests w ((q, expected, d) # cases) ms
   = (case snd (run_test w q expected d ms) of
        Inl x \<Rightarrow> (fst (run_test w q expected d ms), Inl x)
      | Inr r \<Rightarrow>
          (fst (run_test w q expected d ms) @ Sleep # fst (run_tests w cases ms),
           case snd (run_tests w cases ms) of Inl x \<Rightarrow> Inl x | Inr rs \<Rightarrow> Inr (r # rs)))"
  by (simp add: bind_io_def emit_def ret_def split: sum.splits)

lemma get_embedding_events:
  assumes "endpoint w = Some (url, key)"
  shows "\<exists>rest. fst (get_embedding w text) = Urlopen url key EMBEDDING_MODEL text # rest
                \<and> (\<forall>u k m t. Urlopen u k m t \<notin> set rest)"
  using assms by (simp add: get_embedding_def io_simps split: sum.splits)

subsection \<open>The concrete worlds, evaluated\<close>

lemma cosine_money: "cosine_similarity [1, 0] [7, 24] = Inr (7 / 25)"
  by (simp add: cosine_similarity_def Let_def py_truediv_def sqrt_625)

lemma cosine_f_money: "cosine_similarity_f [Num 1, Num 0] [Num 7, Num 24] = Inr (Num (7 / 25))"
  using cosine_similarity_f_Num [of "[1, 0]" "[7, 24]"] by (simp add: cosine_money)

lemma round4_money: "round4 (7 / 25) = 7 / 25"
  by (simp add: round4_def Let_def)

lemma money_embedding:
  "get_embedding money_world q
   = ([Urlopen ''https://api.openai.com/v1/embeddings'' ''sk-test'' EMBEDDING_MODEL q],
      Inr [Num 1, Num 0])"
  by (simp add: get_embedding_def endpoint_def money_world_def bare_world_def emit_def ret_def)

lemma offline_embedding:
  "get_embedding offline_world q
   = ([Urlopen ''https://api.openai.com/v1/embeddings'' ''sk-test'' EMBEDDING_MODEL q,
       Print (Embedding_api_error (URLError ''unreachable''))],
      Inr [])"
  by (simp add: get_embedding_def endpoint_def offline_world_def bare_world_def emit_def ret_def)

lemma money_vector:
  "snd (search_vector money_world [Num 1, Num 0] SCOPE_PREFIX MAX_RESULTS)
   = Inr [\<lparr>score = Num (7 / 25), path = ''memory/customers/test-customer/training.md'',
            lines = (3, 4), text' = ''A: for Money''\<rparr>]"
  by (simp add: search_vector_def io_simps money_world_def bare_world_def money_chunk_def
        cosine_f_money round4_money MAX_RESULTS_def py_sorted_def)

lemma money_fts:
  "snd (search_fts money_world q SCOPE_PREFIX MAX_RESULTS)
   = Inr [Fts_hit ''A: for Money'' ''memory/customers/test-customer/training.md'' (3, 4) (- 1)]"
  by (simp add: search_fts_def io_simps money_world_def bare_world_def Let_def)

lemma money_found: "str_in (lower ''money'') (lower ''A: for Money'')"
  by code_simp

lemma sow_not_found: "\<not> str_in (lower ''SOW'') (lower ''A: for Money'')"
  by code_simp

lemma money_elapsed: "elapsed_ms money_world q = 12"
  by (simp add: money_world_def bare_world_def)

lemma money_below:
  "snd (run_test money_world q ''money'' d MIN_SCORE_DEFAULT)
   = Inr \<lparr>status = ''BELOW_THRESHOLD'', query = q, top_score = Some (Num (7 / 25)),
          above_threshold = Some 0, embed_ms = Some 12\<rparr>"
  using money_found
    run_test_scored [OF _ _ money_vector money_fts, of q "''money''" d MIN_SCORE_DEFAULT]
  by (simp add: money_embedding money_elapsed MIN_SCORE_DEFAULT_def)

lemma money_fail:
  "snd (run_test money_world q ''SOW'' d MIN_SCORE_DEFAULT)
   = Inr \<lparr>status = ''FAIL'', query = q, top_score = Some (Num (7 / 25)),
          above_threshold = Some 0, embed_ms = Some 12\<rparr>"
  using sow_not_found
    run_test_scored [OF _ _ money_vector money_fts, of q "''SOW''" d MIN_SCORE_DEFAULT]
  by (simp add: money_embedding money_elapsed MIN_SCORE_DEFAULT_def)

lemma offline_skip:
  "snd (run_test offline_world q expected d ms)
   = Inr \<lparr>status = ''skip'', query = q, top_score = None, above_threshold = None,
          embed_ms = None\<rparr>"
  by (rule run_test_skip) (simp add: offline_embedding)

subsection \<open>Classification\<close>

lemma truncated_embedding:
  "snd (get_embedding truncated_world q) = Inr [Num 1, Num 0]"
  by (simp add: get_embedding_def endpoint_def truncated_world_def money_world_def
        bare_world_def io_simps)

lemma truncated_vector:
  "snd (search_vector truncated_world v SCOPE_PREFIX MAX_RESULTS) = Inl StructError"
  by (simp add: search_vector_def io_simps truncated_world_def money_world_def bare_world_def
        struct_unpack_def)

text \<open>
  C4, as stated, fails: not every test case resolves to a status. The query embeds to a
  non-empty vector, the stored embedding of the one chunk is a buffer of five bytes,
  \<open>struct.unpack\<close> raises \<open>struct.error\<close> in \<open>search_vector\<close>, and \<open>run_test\<close>
  raises it: the case gets none of the four labels.
\<close>

theorem unreadable_embedding_counterexample:
  "snd (get_embedding truncated_world ''Can I get someone to hop on a call?'')
     = Inr [Num 1, Num 0]
   \<and> snd (run_test truncated_world ''Can I get someone to hop on a call?'' ''money''
             ''Hop on a call'' (Num (35 / 100))) = Inl StructError"
  by (simp add: run_test_def io_simps Let_def truncated_embedding truncated_vector)

text \<open>
  C4, amended. \<open>run_test\<close> returns a result exactly when the embedding call returns
  and, the embedding being non-empty, both searches return; otherwise an exception ends
  the case and it has no status. A result has exactly one of the four labels: \<open>skip\<close>
  exactly when the embedding is empty, whatever the store holds, and otherwise \<open>PASS\<close>,
  \<open>BELOW_THRESHOLD\<close> or \<open>FAIL\<close>, each on its own condition on the two result sets,
  of which conditions exactly one holds.
\<close>

theorem run_test_classification:
  "((\<exists>r. snd (run_test w q expected d ms) = Inr r) \<longleftrightarrow>
      (\<exists>v. snd (get_embedding w q) = Inr v
           \<and> (v \<noteq> [] \<longrightarrow>
                (\<exists>vs. snd (search_vector w v SCOPE_PREFIX MAX_RESULTS) = Inr vs)
                \<and> (\<exists>fs. snd (search_fts w q SCOPE_PREFIX MAX_RESULTS) = Inr fs))))
   \<and> (\<forall>r. snd (run_test w q expected d ms) = Inr r \<longrightarrow>
         status r \<in> set [''skip'', ''PASS'', ''BELOW_THRESHOLD'', ''FAIL'']
         \<and> (\<exists>v. snd (get_embedding w q) = Inr v
                \<and> (status r = ''skip'') = (v = [])
                \<and> (v \<noteq> [] \<longrightarrow>
                     (\<exists>vs fs.
                        snd (search_vector w v SCOPE_PREFIX MAX_RESULTS) = Inr vs
                        \<and> snd (search_fts w q SCOPE_PREFIX MAX_RESULTS) = Inr fs
                        \<and> (status r = ''PASS'') =
                            ((\<exists>x\<in>set vs. ms \<le> score x
                                           \<and> str_in (lower expected) (lower (text' x)))
                             \<or> ((\<exists>y\<in>set fs. str_in (lower expected) (lower (get_text y [])))
                                 \<and> \<not> (\<exists>x\<in>set vs. str_in (lower expected) (lower (text' x)))))
                        \<and> (status r = ''BELOW_THRESHOLD'') =
                            ((\<exists>x\<in>set vs. str_in (lower expected) (lower (text' x)))
                             \<and> \<not> (\<exists>x\<in>set vs. ms \<le> score x
                                              \<and> str_in (lower expected) (lower (text' x))))
                        \<and> (status r = ''FAIL'') =
                            (\<not> (\<exists>x\<in>set vs. str_in (lower expected) (lower (text' x)))
                             \<and> \<not> (\<exists>y\<in>set fs.
                                     str_in (lower expected) (lower (get_text y []))))))))"
proof (intro conjI allI impI iffI)
  assume "\<exists>r. snd (run_test w q expected d ms) = Inr r"
  then obtain r where "snd (run_test w q expected d ms) = Inr r" ..
  then show "\<exists>v. snd (get_embedding w q) = Inr v
           \<and> (v \<noteq> [] \<longrightarrow>
                (\<exists>vs. snd (search_vector w v SCOPE_PREFIX MAX_RESULTS) = Inr vs)
                \<and> (\<exists>fs. snd (search_fts w q SCOPE_PREFIX MAX_RESULTS) = Inr fs))"
    by (cases rule: run_test_cases) auto
next
  assume "\<exists>v. snd (get_embedding w q) = Inr v
           \<and> (v \<noteq> [] \<longrightarrow>
                (\<exists>vs. snd (search_vector w v SCOPE_PREFIX MAX_RESULTS) = Inr vs)
                \<and> (\<exists>fs. snd (search_fts w q SCOPE_PREFIX MAX_RESULTS) = Inr fs))"
  then obtain v where v: "snd (get_embedding w q) = Inr v"
    and s: "v \<noteq> [] \<Longrightarrow> (\<exists>vs. snd (search_vector w v SCOPE_PREFIX MAX_RESULTS) = Inr vs)
                \<and> (\<exists>fs. snd (search_fts w q SCOPE_PREFIX MAX_RESULTS) = Inr fs)"
    by blast
  show "\<exists>r. snd (run_test w q expected d ms) = Inr r"
  proof (cases "v = []")
    case True
    with v show ?thesis by (simp add: run_test_skip)
  next
    case False
    with s obtain vs fs where "snd (search_vector w v SCOPE_PREFIX MAX_RESULTS) = Inr vs"
      and "snd (search_fts w q SCOPE_PREFIX MAX_RESULTS) = Inr fs"
      by blast
    from run_test_scored [OF v False this] show ?thesis by simp
  qed
next
  fix r
  assume r: "snd (run_test w q expected d ms) = Inr r"
  then show "status r \<in> set [''skip'', ''PASS'', ''BELOW_THRESHOLD'', ''FAIL'']"
  proof (cases rule: run_test_cases)
    case 1
    from run_test_skip [OF this, of expected d ms] r show ?thesis by auto
  next
    case (2 v vs fs)
    from run_test_scored [OF this, of expected d ms] r show ?thesis by auto
  qed
next
  fix r
  assume r: "snd (run_test w q expected d ms) = Inr r"
  then show "\<exists>v. snd (get_embedding w q) = Inr v
                \<and> (status r = ''skip'') = (v = [])
                \<and> (v \<noteq> [] \<longrightarrow>
                     (\<exists>vs fs.
                        snd (search_vector w v SCOPE_PREFIX MAX_RESULTS) = Inr vs
                        \<and> snd (search_fts w q SCOPE_PREFIX MAX_RESULTS) = Inr fs
                        \<and> (status r = ''PASS'') =
                            ((\<exists>x\<in>set vs. ms \<le> score x
                                           \<and> str_in (lower expected) (lower (text' x)))
                             \<or> ((\<exists>y\<in>set fs. str_in (lower expected) (lower (get_text y [])))
                                 \<and> \<not> (\<exists>x\<in>set vs. str_in (lower expected) (lower (text' x)))))
                        \<and> (status r = ''BELOW_THRESHOLD'') =
                            ((\<exists>x\<in>set vs. str_in (lower expected) (lower (text' x)))
                             \<and> \<not> (\<exists>x\<in>set vs. ms \<le> score x
                                              \<and> str_in (lower expected) (lower (text' x))))
                        \<and> (status r = ''FAIL'') =
                            (\<not> (\<exists>x\<in>set vs. str_in (lower expected) (lower (text' x)))
                             \<and> \<not> (\<exists>y\<in>set fs.
                                     str_in (lower expected) (lower (get_text y []))))))"
  proof (cases rule: run_test_cases)
    case 1
    from run_test_skip [OF this, of expected d ms] r 1 show ?thesis by auto
  next
    case (2 v vs fs)
    from run_test_scored [OF this, of expected d ms] r
    have st: "status r =
                  (if \<not> (\<exists>x\<in>set vs. ms \<le> score x \<and> str_in (lower expected) (lower (text' x)))
                      \<and> (\<exists>x\<in>set vs. str_in (lower expected) (lower (text' x)))
                   then ''BELOW_THRESHOLD''
                   else if (\<exists>x\<in>set vs. ms \<le> score x
                                        \<and> str_in (lower expected) (lower (text' x)))
                           \<or> (\<exists>y\<in>set fs. str_in (lower expected) (lower (get_text y [])))
                   then ''PASS'' else ''FAIL'')"
      by (auto simp: list_ex_filter list_ex_iff)
    show ?thesis
    proof (intro exI [of _ v] conjI impI)
      show "snd (get_embedding w q) = Inr v" by (rule 2)
      show "(status r = ''skip'') = (v = [])" using st 2(2) by (simp split: if_splits)
      show "\<exists>vs fs.
              snd (search_vector w v SCOPE_PREFIX MAX_RESULTS) = Inr vs
              \<and> snd (search_fts w q SCOPE_PREFIX MAX_RESULTS) = Inr fs
              \<and> (status r = ''PASS'') =
                  ((\<exists>x\<in>set vs. ms \<le> score x \<and> str_in (lower expected) (lower (text' x)))
                   \<or> ((\<exists>y\<in>set fs. str_in (lower expected) (lower (get_text y [])))
                       \<and> \<not> (\<exists>x\<in>set vs. str_in (lower expected) (lower (text' x)))))
              \<and> (status r = ''BELOW_THRESHOLD'') =
                  ((\<exists>x\<in>set vs. str_in (lower expected) (lower (text' x)))
                   \<and> \<not> (\<exists>x\<in>set vs. ms \<le> score x
                                    \<and> str_in (lower expected) (lower (text' x))))
              \<and> (status r = ''FAIL'') =
                  (\<not> (\<exists>x\<in>set vs. str_in (lower expected) (lower (text' x)))
                   \<and> \<not> (\<exists>y\<in>set fs. str_in (lower expected) (lower (get_text y []))))"
      proof (intro exI [of _ vs] exI [of _ fs] conjI)
        show "snd (search_vector w v SCOPE_PREFIX MAX_RESULTS) = Inr vs" by (rule 2)
        show "snd (search_fts w q SCOPE_PREFIX MAX_RESULTS) = Inr fs" by (rule 2)
        show "(status r = ''PASS'') =
                  ((\<exists>x\<in>set vs. ms \<le> score x \<and> str_in (lower expected) (lower (text' x)))
                   \<or> ((\<exists>y\<in>set fs. str_in (lower expected) (lower (get_text y [])))
                       \<and> \<not> (\<exists>x\<in>set vs. str_in (lower expected) (lower (text' x)))))"
          unfolding st by (auto split: if_splits)
        show "(status r = ''BELOW_THRESHOLD'') =
                  ((\<exists>x\<in>set vs. str_in (lower expected) (lower (text' x)))
                   \<and> \<not> (\<exists>x\<in>set vs. ms \<le> score x
                                    \<and> str_in (lower expected) (lower (text' x))))"
          unfolding st by (auto split: if_splits)
        show "(status r = ''FAIL'') =
                  (\<not> (\<exists>x\<in>set vs. str_in (lower expected) (lower (text' x)))
                   \<and> \<not> (\<exists>y\<in>set fs. str_in (lower expected) (lower (get_text y []))))"
          unfolding st by (auto split: if_splits)
      qed
    qed
  qed
qed

theorem run_test_classification_witness:
  "snd (run_test money_world ''Can I get someone to hop on a call?'' ''money''
          ''Hop on a call'' MIN_SCORE_DEFAULT)
     = Inr \<lparr>status = ''BELOW_THRESHOLD'', query = ''Can I get someone to hop on a call?'',
            top_score = Some (Num (7 / 25)), above_threshold = Some 0, embed_ms = Some 12\<rparr>
   \<and> (\<exists>v. snd (get_embedding money_world ''Can I get someone to hop on a call?'') = Inr v
          \<and> v \<noteq> []
          \<and> (\<exists>vs fs.
                snd (search_vector money_world v SCOPE_PREFIX MAX_RESULTS) = Inr vs
                \<and> snd (search_fts money_world ''Can I get someone to hop on a call?''
                         SCOPE_PREFIX MAX_RESULTS) = Inr fs
                \<and> (\<exists>x\<in>set vs. str_in (lower ''money'') (lower (text' x)))
                \<and> \<not> (\<exists>x\<in>set vs. MIN_SCORE_DEFAULT \<le> score x
                                 \<and> str_in (lower ''money'') (lower (text' x)))))
   \<and> snd (run_test offline_world ''Can I get someone to hop on a call?'' ''money''
             ''Hop on a call'' MIN_SCORE_DEFAULT)
     = Inr \<lparr>status = ''skip'', query = ''Can I get someone to hop on a call?'',
            top_score = None, above_threshold = None, embed_ms = None\<rparr>
   \<and> snd (get_embedding offline_world ''Can I get someone to hop on a call?'') = Inr []"
proof -
  let ?q = "''Can I get someone to hop on a call?''"
  note m = money_below [of ?q "''Hop on a call''"]
  note o = offline_skip [of ?q "''money''" "''Hop on a call''" MIN_SCORE_DEFAULT]
  from run_test_classification [of money_world ?q "''money''" "''Hop on a call''"
      MIN_SCORE_DEFAULT] m
  have a: "\<exists>v. snd (get_embedding money_world ?q) = Inr v
          \<and> v \<noteq> []
          \<and> (\<exists>vs fs.
                snd (search_vector money_world v SCOPE_PREFIX MAX_RESULTS) = Inr vs
                \<and> snd (search_fts money_world ?q SCOPE_PREFIX MAX_RESULTS) = Inr fs
                \<and> (\<exists>x\<in>set vs. str_in (lower ''money'') (lower (text' x)))
                \<and> \<not> (\<exists>x\<in>set vs. MIN_SCORE_DEFAULT \<le> score x
                                 \<and> str_in (lower ''money'') (lower (text' x))))"
    by (simp add: money_embedding) blast
  from run_test_classification [of offline_world ?q "''money''" "''Hop on a call''"
      MIN_SCORE_DEFAULT] o
  have b: "snd (get_embedding offline_world ?q) = Inr []"
    by auto
  show ?thesis
    using m o a b by simp
qed

text \<open>
  C1, as stated, fails: the query embeds to a non-empty vector, the full-text result
  holds the expected substring, the only vector result holds it too but scores 0.28,
  below the threshold 0.35, and the status is \<open>BELOW_THRESHOLD\<close>, not \<open>PASS\<close>.
\<close>

theorem lexical_match_counterexample:
  "snd (get_embedding money_world ''Can I get someone to hop on a call?'') = Inr [Num 1, Num 0]
   \<and> snd (search_fts money_world ''Can I get someone to hop on a call?'' SCOPE_PREFIX MAX_RESULTS)
       = Inr [Fts_hit ''A: for Money'' ''memory/customers/test-customer/training.md''
               (3, 4) (- 1)]
   \<and> str_in (lower ''money'') (lower ''A: for Money'')
   \<and> snd (run_test money_world ''Can I get someone to hop on a call?'' ''money''
             ''Hop on a call'' (Num (35 / 100)))
       = Inr \<lparr>status = ''BELOW_THRESHOLD'', query = ''Can I get someone to hop on a call?'',
              top_score = Some (Num (7 / 25)), above_threshold = Some 0, embed_ms = Some 12\<rparr>"
proof -
  have "elapsed_ms money_world ''Can I get someone to hop on a call?'' = 12"
    by (simp add: money_world_def bare_world_def)
  then show ?thesis
    using money_found
      run_test_scored [OF _ _ money_vector money_fts,
        of "''Can I get someone to hop on a call?''" "''money''" "''Hop on a call''" "Num (35 / 100)"]
    by (simp add: money_embedding money_fts)
qed

text \<open>
  C1, amended. For a test case whose embedding is not empty and whose expected substring
  occurs (case-insensitively) in the text of a lexical result, the status is \<open>PASS\<close>,
  unless the substring occurs in some vector result and in none that scores at or above
  the threshold: then it is \<open>BELOW_THRESHOLD\<close>. A lexical match turns \<open>FAIL\<close> into
  \<open>PASS\<close>; it does not turn \<open>BELOW_THRESHOLD\<close> into \<open>PASS\<close>.
\<close>

theorem lexical_match_verdict:
  assumes "snd (get_embedding w q) = Inr v" and "v \<noteq> []"
    and "snd (search_vector w v SCOPE_PREFIX MAX_RESULTS) = Inr vs"
    and "snd (search_fts w q SCOPE_PREFIX MAX_RESULTS) = Inr fs"
    and "\<exists>r\<in>set fs. str_in (lower expected) (lower (get_text r []))"
  shows "\<exists>r. snd (run_test w q expected d ms) = Inr r
             \<and> status r =
                 (if (\<exists>x\<in>set vs. str_in (lower expected) (lower (text' x)))
                     \<and> \<not> (\<exists>x\<in>set vs. ms \<le> score x
                                      \<and> str_in (lower expected) (lower (text' x)))
                  then ''BELOW_THRESHOLD'' else ''PASS'')"
  using assms(5) run_test_scored [OF assms(1-4), of expected d ms]
  by (simp add: list_ex_filter) (auto simp: list_ex_iff)


theorem lexical_match_verdict_witness:
  "snd (get_embedding (money_world\<lparr>select_chunks := \<lambda>model pattern. Inr []\<rparr>)
          ''Can I get someone to hop on a call?'') = Inr [Num 1, Num 0]
   \<and> [Num 1, Num 0] \<noteq> []
   \<and> snd (search_vector (money_world\<lparr>select_chunks := \<lambda>model pattern. Inr []\<rparr>) [Num 1, Num 0]
            SCOPE_PREFIX MAX_RESULTS) = Inr []
   \<and> snd (search_fts (money_world\<lparr>select_chunks := \<lambda>model pattern. Inr []\<rparr>)
            ''Can I get someone to hop on a call?'' SCOPE_PREFIX MAX_RESULTS)
       = Inr [Fts_hit ''A: for Money'' ''memory/customers/test-customer/training.md''
               (3, 4) (- 1)]
   \<and> (\<exists>r\<in>set [Fts_hit ''A: for Money'' ''memory/customers/test-customer/training.md''
                    (3, 4) (- 1)].
         str_in (lower ''money'') (lower (get_text r [])))
   \<and> (\<exists>r. snd (run_test (money_world\<lparr>select_chunks := \<lambda>model pattern. Inr []\<rparr>)
                 ''Can I get someone to hop on a call?'' ''money'' ''Hop on a call''
                 (Num (35 / 100))) = Inr r
          \<and> status r = ''PASS'')"
proof -
  let ?w = "money_world\<lparr>select_chunks := \<lambda>model pattern. Inr []\<rparr>"
  let ?q = "''Can I get someone to hop on a call?''"
  let ?hit = "Fts_hit ''A: for Money'' ''memory/customers/test-customer/training.md''
                (3, 4) (- 1)"
  have e: "snd (get_embedding ?w ?q) = Inr [Num 1, Num 0]"
    by (simp add: get_embedding_def endpoint_def money_world_def bare_world_def io_simps)
  have n: "[Num 1, Num 0] \<noteq> []"
    by simp
  have v: "snd (search_vector ?w [Num 1, Num 0] SCOPE_PREFIX MAX_RESULTS) = Inr []"
    by (simp add: search_vector_def io_simps money_world_def bare_world_def py_sorted_def)
  have f: "snd (search_fts ?w ?q SCOPE_PREFIX MAX_RESULTS) = Inr [?hit]"
    by (simp add: search_fts_def io_simps money_world_def bare_world_def Let_def)
  have m: "\<exists>r\<in>set [?hit]. str_in (lower ''money'') (lower (get_text r []))"
    using money_found by simp
  show ?thesis
    using e v f m lexical_match_verdict [OF e n v f m, of "''Hop on a call''" "Num (35 / 100)"]
    by simp
qed

subsection \<open>Failures of the embedding call\<close>

text \<open>
  C2, as stated, fails on a malformed response: the body is not JSON, \<open>json.loads\<close>
  raises \<open>JSONDecodeError\<close>, which is no \<open>URLError\<close>; \<open>get_embedding\<close> raises it,
  \<open>run_test\<close> raises it, and the run ends there with no result recorded.
\<close>

theorem malformed_response_counterexample:
  "get_embedding garbled_world ''Can I get someone to hop on a call?''
     = ([Urlopen ''https://api.openai.com/v1/embeddings'' ''sk-test'' EMBEDDING_MODEL
           ''Can I get someone to hop on a call?''],
        Inl JSONDecodeError)
   \<and> snd (run_test garbled_world ''Can I get someone to hop on a call?'' ''money''
             ''Hop on a call'' (Num (35 / 100))) = Inl JSONDecodeError
   \<and> snd (main_on [(''Can I get someone to hop on a call?'', ''money'', ''Hop on a call''),
                    (''I need an executable SOW'', ''SOW'', ''SOW request'')] garbled_world)
       = Inl JSONDecodeError"
  by (simp add: main_on_def parse_min_score_def run_tests_Cons run_test_def get_embedding_def
        endpoint_def garbled_world_def bare_world_def io_simps emit_def raise_def)

text \<open>
  C2, amended. Where the embedding call fails with a \<open>URLError\<close> (a network error, an
  HTTP error status, a timeout that \<open>urlopen\<close> reports as \<open>URLError\<close>),
  \<open>get_embedding\<close> prints the warning and returns the empty vector, \<open>run_test\<close>
  records the case as \<open>skip\<close>, and the loop goes on to the remaining cases.
\<close>

theorem url_error_skips:
  assumes "endpoint w = Some (url, key)"
    and "embeddings_api w url key EMBEDDING_MODEL q = Inl e"
    and "is_URLError e"
  shows "get_embedding w q
           = ([Urlopen url key EMBEDDING_MODEL q, Print (Embedding_api_error e)], Inr [])
         \<and> snd (run_test w q expected d ms)
             = Inr \<lparr>status = ''skip'', query = q, top_score = None, above_threshold = None,
                    embed_ms = None\<rparr>
         \<and> run_tests w ((q, expected, d) # cases) ms
             = (fst (run_test w q expected d ms) @ Sleep # fst (run_tests w cases ms),
                case snd (run_tests w cases ms) of
                  Inl x \<Rightarrow> Inl x
                | Inr rs \<Rightarrow>
                    Inr (\<lparr>status = ''skip'', query = q, top_score = None,
                           above_threshold = None, embed_ms = None\<rparr> # rs))"
proof -
  have g: "get_embedding w q
           = ([Urlopen url key EMBEDDING_MODEL q, Print (Embedding_api_error e)], Inr [])"
    using assms by (simp add: get_embedding_def emit_def ret_def)
  then have "snd (get_embedding w q) = Inr []"
    by simp
  then have r: "snd (run_test w q expected d ms)
             = Inr \<lparr>status = ''skip'', query = q, top_score = None, above_threshold = None,
                    embed_ms = None\<rparr>"
    by (rule run_test_skip)
  show ?thesis
    using g r by (simp add: run_tests_Cons del: run_tests.simps)
qed

theorem url_error_skips_witness:
  "endpoint offline_world = Some (''https://api.openai.com/v1/embeddings'', ''sk-test'')
   \<and> embeddings_api offline_world ''https://api.openai.com/v1/embeddings'' ''sk-test''
         EMBEDDING_MODEL ''I need an executable SOW'' = Inl (URLError ''unreachable'')
   \<and> is_URLError (URLError ''unreachable'')
   \<and> snd (get_embedding offline_world ''I need an executable SOW'') = Inr []
   \<and> snd (run_tests offline_world
             [(''I need an executable SOW'', ''SOW'', ''SOW request''),
              (''I need a quote on CW paper'', ''quote'', ''Quote request'')] (Num (35 / 100)))
       = Inr [\<lparr>status = ''skip'', query = ''I need an executable SOW'', top_score = None,
                above_threshold = None, embed_ms = None\<rparr>,
              \<lparr>status = ''skip'', query = ''I need a quote on CW paper'', top_score = None,
                above_threshold = None, embed_ms = None\<rparr>]"
proof -
  have p: "endpoint offline_world = Some (''https://api.openai.com/v1/embeddings'', ''sk-test'')"
    by (simp add: endpoint_def offline_world_def bare_world_def)
  have a: "embeddings_api offline_world ''https://api.openai.com/v1/embeddings'' ''sk-test''
             EMBEDDING_MODEL q = Inl (URLError ''unreachable'')" for q
    by (simp add: offline_world_def bare_world_def)
  have u: "is_URLError (URLError ''unreachable'')"
    by simp
  show ?thesis
    using p a u
      url_error_skips [OF p a u, of "''I need an executable SOW''" "''SOW''" "''SOW request''"
        "Num (35 / 100)" "[(''I need a quote on CW paper'', ''quote'', ''Quote request'')]"]
      url_error_skips [OF p a u, of "''I need a quote on CW paper''" "''quote''"
        "''Quote request''" "Num (35 / 100)" "[]"]
    by (simp add: ret_def)
qed

subsection \<open>Choice of the backend\<close>

text \<open>
  C6, as stated, fails. The module presents OpenAI as its backend and OpenRouter as the
  alternative (the docstring of \<open>get_embedding\<close>, the order of the two globals and of
  the error message). With both keys set, the request goes to OpenRouter with the
  OpenRouter key.
\<close>

theorem both_keys_counterexample:
  "OPENAI_API_KEY two_key_world = ''sk-openai''
   \<and> OPENROUTER_API_KEY two_key_world = ''sk-or''
   \<and> fst (get_embedding two_key_world ''I need an executable SOW'')
       = [Urlopen ''https://openrouter.ai/api/v1/embeddings'' ''sk-or'' EMBEDDING_MODEL
            ''I need an executable SOW'',
          Print (Embedding_api_error (URLError ''unreachable''))]"
  by (simp add: get_embedding_def endpoint_def two_key_world_def bare_world_def io_simps)

text \<open>
  C6, amended. The OpenRouter key takes precedence: whenever it is set the one request
  goes to the OpenRouter endpoint with that key; the OpenAI endpoint and key are used
  only when the OpenRouter key is unset and the OpenAI key is set.
\<close>

theorem openrouter_key_first:
  "(OPENROUTER_API_KEY w \<noteq> [] \<longrightarrow>
      (\<exists>rest. fst (get_embedding w text)
                = Urlopen ''https://openrouter.ai/api/v1/embeddings'' (OPENROUTER_API_KEY w)
                    EMBEDDING_MODEL text # rest
              \<and> (\<forall>u k m t. Urlopen u k m t \<notin> set rest)))
   \<and> (OPENROUTER_API_KEY w = [] \<and> OPENAI_API_KEY w \<noteq> [] \<longrightarrow>
      (\<exists>rest. fst (get_embedding w text)
                = Urlopen ''https://api.openai.com/v1/embeddings'' (OPENAI_API_KEY w)
                    EMBEDDING_MODEL text # rest
              \<and> (\<forall>u k m t. Urlopen u k m t \<notin> set rest)))"
proof (intro conjI impI)
  assume "OPENROUTER_API_KEY w \<noteq> []"
  then have "endpoint w = Some (''https://openrouter.ai/api/v1/embeddings'', OPENROUTER_API_KEY w)"
    by (simp add: endpoint_def)
  then show "\<exists>rest. fst (get_embedding w text)
                = Urlopen ''https://openrouter.ai/api/v1/embeddings'' (OPENROUTER_API_KEY w)
                    EMBEDDING_MODEL text # rest
              \<and> (\<forall>u k m t. Urlopen u k m t \<notin> set rest)"
    by (rule get_embedding_events)
next
  assume "OPENROUTER_API_KEY w = [] \<and> OPENAI_API_KEY w \<noteq> []"
  then have "endpoint w = Some (''https://api.openai.com/v1/embeddings'', OPENAI_API_KEY w)"
    by (simp add: endpoint_def)
  then show "\<exists>rest. fst (get_embedding w text)
                = Urlopen ''https://api.openai.com/v1/embeddings'' (OPENAI_API_KEY w)
                    EMBEDDING_MODEL text # rest
              \<and> (\<forall>u k m t. Urlopen u k m t \<notin> set rest)"
    by (rule get_embedding_events)
qed

theorem openrouter_key_first_witness:
  "OPENROUTER_API_KEY two_key_world \<noteq> [] \<and> OPENAI_API_KEY two_key_world \<noteq> []
   \<and> (\<exists>rest. fst (get_embedding two_key_world ''I need an executable SOW'')
                = Urlopen ''https://openrouter.ai/api/v1/embeddings'' ''sk-or''
                    EMBEDDING_MODEL ''I need an executable SOW'' # rest
              \<and> (\<forall>u k m t. Urlopen u k m t \<notin> set rest))
   \<and> OPENROUTER_API_KEY offline_world = [] \<and> OPENAI_API_KEY offline_world \<noteq> []
   \<and> (\<exists>rest. fst (get_embedding offline_world ''I need an executable SOW'')
                = Urlopen ''https://api.openai.com/v1/embeddings'' ''sk-test''
                    EMBEDDING_MODEL ''I need an executable SOW'' # rest
              \<and> (\<forall>u k m t. Urlopen u k m t \<notin> set rest))"
proof -
  have a: "OPENROUTER_API_KEY two_key_world = ''sk-or''"
    "OPENAI_API_KEY two_key_world = ''sk-openai''"
    by (simp_all add: two_key_world_def bare_world_def)
  have b: "OPENROUTER_API_KEY offline_world = []" "OPENAI_API_KEY offline_world = ''sk-test''"
    by (simp_all add: offline_world_def bare_world_def)
  show ?thesis
    using openrouter_key_first [of two_key_world "''I need an executable SOW''"]
      openrouter_key_first [of offline_world "''I need an executable SOW''"]
    by (simp add: a b)
qed

subsection \<open>No credentials\<close>

lemma run_test_no_key:
  assumes "endpoint w = None"
  shows "run_test w q expected d ms
         = ([Print Rule_double, Print (Query_is q), Print (Expect_is expected),
             Print (Desc_is d), Print Rule_single, Print Err_no_key],
            Inl (SystemExit 1))"
  using assms by (simp add: run_test_def get_embedding_def bind_io_def emit_def raise_def)

lemma run_tests_no_key:
  assumes "endpoint w = None"
  shows "run_tests w ((q, expected, d) # cases) ms
         = ([Print Rule_double, Print (Query_is q), Print (Expect_is expected),
             Print (Desc_is d), Print Rule_single, Print Err_no_key],
            Inl (SystemExit 1))"
  by (simp add: run_tests_Cons run_test_no_key [OF assms] del: run_tests.simps)

text \<open>
  C3, as stated, fails: the check is not made before the per-query work. It sits in
  \<open>get_embedding\<close>, which \<open>run_test\<close> calls for each query. With no key set, the
  module prints its start-up lines, opens the store, counts, enters the first test case
  and prints its header; only then does it print the error and exit.
\<close>

theorem no_key_counterexample:
  "main bare_world
   = ([Print_main Title,
       Print_main (Db_is ''/root/.openclaw/memory/main.sqlite''),
       Print_main (Scope_is ''memory/customers/test-customer''),
       Print_main (Min_score_is (Num (35 / 100))),
       Print_main (Embedding_is ''text-embedding-3-small''),
       Print_main (Tests_is 10),
       Connect ''/root/.openclaw/memory/main.sqlite'',
       Execute_count_chunks ''memory/customers/test-customer/%'',
       Execute_count_files ''memory/customers/test-customer/%'',
       Print_main (Indexed 0 0),
       Print Rule_double,
       Print (Query_is ''hey can I get somebody on a call to talk about this deal?''),
       Print (Expect_is ''CloudWarriors''),
       Print (Desc_is (''Presales call request '' @ arrow @ '' should ask if CW is partner'')),
       Print Rule_single,
       Print Err_no_key],
      Inl (SystemExit 1))"
proof -
  have "endpoint bare_world = None"
    by (simp add: endpoint_def bare_world_def)
  then show ?thesis
    by (simp add: main_def main_on_def TEST_CASES_def parse_min_score_def run_test_no_key
          bind_io_def emit_def lift_def raise_def bare_world_def MIN_SCORE_DEFAULT_def
          SCOPE_PREFIX_def EMBEDDING_MODEL_def)
qed

text \<open>
  C3, amended. If neither key is set, the program makes no embeddings request and runs
  no search. Where also the threshold argument is read, the store file exists, and the
  connection and the two count queries succeed, it ends at the first embedding call,
  inside the first test case and after that test's header, with the configuration error
  as its last line and exit code 1; the exit is \<open>SystemExit\<close>, not a \<open>skip\<close> of the
  case.
\<close>

theorem no_key_is_fatal:
  assumes "OPENAI_API_KEY w = []" and "OPENROUTER_API_KEY w = []"
  shows "(\<forall>u k m t. Urlopen u k m t \<notin> set (fst (main_on ((q, expected, d) # cases) w)))
         \<and> (\<forall>m p. Execute_chunks m p \<notin> set (fst (main_on ((q, expected, d) # cases) w)))
         \<and> (\<forall>f p l. Execute_fts f p l \<notin> set (fst (main_on ((q, expected, d) # cases) w)))
         \<and> (parse_min_score w = Inr ms \<and> path_exists w (DB_PATH w)
             \<and> connect w (DB_PATH w) = Inr ()
             \<and> count_chunks w (SCOPE_PREFIX @ ''/%'') = Inr chunk_count
             \<and> count_files w (SCOPE_PREFIX @ ''/%'') = Inr file_count \<longrightarrow>
              main_on ((q, expected, d) # cases) w
              = ([Print_main Title, Print_main (Db_is (DB_PATH w)),
                  Print_main (Scope_is SCOPE_PREFIX), Print_main (Min_score_is ms),
                  Print_main (Embedding_is EMBEDDING_MODEL),
                  Print_main (Tests_is (Suc (length cases))),
                  Connect (DB_PATH w),
                  Execute_count_chunks (SCOPE_PREFIX @ ''/%''),
                  Execute_count_files (SCOPE_PREFIX @ ''/%''),
                  Print_main (Indexed file_count chunk_count),
                  Print Rule_double, Print (Query_is q), Print (Expect_is expected),
                  Print (Desc_is d), Print Rule_single, Print Err_no_key],
                 Inl (SystemExit 1)))"
proof -
  have e: "endpoint w = None"
    using assms by (simp add: endpoint_def)
  note r = run_tests_no_key [OF e]
  have "\<forall>u k m t. Urlopen u k m t \<notin> set (fst (main_on ((q, expected, d) # cases) w))"
    by (simp add: main_on_def io_simps r del: run_tests.simps split: sum.splits)
  moreover
  have "\<forall>m p. Execute_chunks m p \<notin> set (fst (main_on ((q, expected, d) # cases) w))"
    by (simp add: main_on_def io_simps r del: run_tests.simps split: sum.splits)
  moreover
  have "\<forall>f p l. Execute_fts f p l \<notin> set (fst (main_on ((q, expected, d) # cases) w))"
    by (simp add: main_on_def io_simps r del: run_tests.simps split: sum.splits)
  moreover
  have "parse_min_score w = Inr ms \<and> path_exists w (DB_PATH w)
             \<and> connect w (DB_PATH w) = Inr ()
             \<and> count_chunks w (SCOPE_PREFIX @ ''/%'') = Inr chunk_count
             \<and> count_files w (SCOPE_PREFIX @ ''/%'') = Inr file_count \<longrightarrow>
              main_on ((q, expected, d) # cases) w
              = ([Print_main Title, Print_main (Db_is (DB_PATH w)),
                  Print_main (Scope_is SCOPE_PREFIX), Print_main (Min_score_is ms),
                  Print_main (Embedding_is EMBEDDING_MODEL),
                  Print_main (Tests_is (Suc (length cases))),
                  Connect (DB_PATH w),
                  Execute_count_chunks (SCOPE_PREFIX @ ''/%''),
                  Execute_count_files (SCOPE_PREFIX @ ''/%''),
                  Print_main (Indexed file_count chunk_count),
                  Print Rule_double, Print (Query_is q), Print (Expect_is expected),
                  Print (Desc_is d), Print Rule_single, Print Err_no_key],
                 Inl (SystemExit 1))"
    by (simp add: main_on_def r bind_io_def emit_def lift_def raise_def del: run_tests.simps)
  ultimately show ?thesis
    by blast
qed

theorem no_key_is_fatal_witness:
  "OPENAI_API_KEY bare_world = [] \<and> OPENROUTER_API_KEY bare_world = []
   \<and> parse_min_score bare_world = Inr MIN_SCORE_DEFAULT
   \<and> path_exists bare_world (DB_PATH bare_world)
   \<and> connect bare_world (DB_PATH bare_world) = Inr ()
   \<and> count_chunks bare_world (SCOPE_PREFIX @ ''/%'') = Inr 0
   \<and> count_files bare_world (SCOPE_PREFIX @ ''/%'') = Inr 0
   \<and> main_on [(''I need an executable SOW'', ''SOW'', ''SOW request'')] bare_world
       = ([Print_main Title, Print_main (Db_is (DB_PATH bare_world)),
           Print_main (Scope_is SCOPE_PREFIX), Print_main (Min_score_is MIN_SCORE_DEFAULT),
           Print_main (Embedding_is EMBEDDING_MODEL), Print_main (Tests_is 1),
           Connect (DB_PATH bare_world),
           Execute_count_chunks (SCOPE_PREFIX @ ''/%''),
           Execute_count_files (SCOPE_PREFIX @ ''/%''),
           Print_main (Indexed 0 0),
           Print Rule_double, Print (Query_is ''I need an executable SOW''),
           Print (Expect_is ''SOW''), Print (Desc_is ''SOW request''), Print Rule_single,
           Print Err_no_key],
          Inl (SystemExit 1))"
proof -
  have a: "OPENAI_API_KEY bare_world = []" and b: "OPENROUTER_API_KEY bare_world = []"
    by (simp_all add: bare_world_def)
  have c: "parse_min_score bare_world = Inr MIN_SCORE_DEFAULT"
    by (simp add: parse_min_score_def bare_world_def)
  have d: "path_exists bare_world (DB_PATH bare_world)"
    "connect bare_world (DB_PATH bare_world) = Inr ()"
    "count_chunks bare_world (SCOPE_PREFIX @ ''/%'') = Inr 0"
    "count_files bare_world (SCOPE_PREFIX @ ''/%'') = Inr 0"
    by (simp_all add: bare_world_def)
  show ?thesis
    using a b c d
      no_key_is_fatal [OF a b, of "''I need an executable SOW''" "''SOW''" "''SOW request''" "[]"
        MIN_SCORE_DEFAULT 0 0]
    by simp
qed

subsection \<open>Results that reach the summary\<close>

lemma flag_of_Some:
  "(flag_of s \<noteq> None) = (s \<in> set [''skip'', ''PASS'', ''BELOW_THRESHOLD'', ''FAIL''])"
  by (auto simp: flag_of_def)

lemma run_test_result_ok:
  assumes "snd (run_test w q expected d ms) = Inr r"
  shows "flag_of (status r) \<noteq> None \<and> (status r = ''BELOW_THRESHOLD'' \<longrightarrow> top_score r \<noteq> None)"
  using assms
proof (cases rule: run_test_cases)
  case 1
  from run_test_skip [OF this, of expected d ms] assms show ?thesis
    by (auto simp: flag_of_def)
next
  case (2 v vs fs)
  from run_test_scored [OF this, of expected d ms] assms show ?thesis
    by (auto simp: flag_of_def)
qed

lemma run_tests_results_ok:
  "snd (run_tests w cases ms) = Inr rs \<Longrightarrow>
   \<forall>r\<in>set rs. flag_of (status r) \<noteq> None
              \<and> (status r = ''BELOW_THRESHOLD'' \<longrightarrow> top_score r \<noteq> None)"
proof (induction cases arbitrary: rs)
  case Nil
  then show ?case by (simp add: ret_def)
next
  case (Cons c cases)
  obtain q expected d where c: "c = (q, expected, d)"
    by (cases c) auto
  from Cons.prems obtain r rs' where r: "snd (run_test w q expected d ms) = Inr r"
    and rs': "snd (run_tests w cases ms) = Inr rs'" and rs: "rs = r # rs'"
    unfolding c by (auto simp: run_tests_Cons simp del: run_tests.simps split: sum.splits)
  from run_test_result_ok [OF r] Cons.IH [OF rs'] rs show ?case
    by simp
qed

lemma below_scores_ok:
  "\<forall>r\<in>set rs. status r = ''BELOW_THRESHOLD'' \<longrightarrow> top_score r \<noteq> None \<Longrightarrow>
   below_scores rs
   = Inr (map (\<lambda>r. get_top_score r (Num 0)) (filter (\<lambda>r. status r = ''BELOW_THRESHOLD'') rs))"
  by (induction rs) (auto simp: get_top_score_def)

lemma distribution_lines:
  "ev \<in> set (fst (distribution rs)) \<Longrightarrow> \<exists>f s b q. ev = Print_main (Distribution_line f s b q)"
  by (induction rs) (auto simp: io_simps Let_def split: option.splits sum.splits if_splits)







lemma less_Num: "(Num a < Num b) = (a < b)"
  by (auto simp: less_pyfloat_def)

lemma fold_min_Num:
  "fold (\<lambda>item lowest. if item < lowest then item else lowest) (map Num xs) (Num x)
   = Num (fold min xs x)"
  by (induction xs arbitrary: x) (auto simp: less_Num min_def)

lemma py_min_Num: "xs \<noteq> [] \<Longrightarrow> py_min (map Num xs) = Inr (Num (Min (set xs)))"
  by (cases xs) (simp_all add: fold_min_Num Min.set_eq_fold [symmetric] del: set_simps)

lemma py_max_Num: "py_max (Num a) (Num b) = Num (max a b)"
  by (auto simp: py_max_def less_Num max_def)

lemma py_min_Inr: "xs \<noteq> [] \<Longrightarrow> \<exists>lowest. py_min xs = Inr lowest"
  by (cases xs) simp_all

lemma recommendation_ok:
  assumes "\<forall>r\<in>set rs. status r = ''BELOW_THRESHOLD'' \<longrightarrow> top_score r \<noteq> None"
  shows "\<exists>lowest.
           (\<not> (\<exists>r\<in>set rs. status r = ''BELOW_THRESHOLD'')
            \<or> py_min (map (\<lambda>r. get_top_score r (Num 0))
                        (filter (\<lambda>r. status r = ''BELOW_THRESHOLD'') rs)) = Inr lowest)
           \<and> recommendation rs (length (filter (\<lambda>r. status r = ''BELOW_THRESHOLD'') rs))
             = (if \<exists>r\<in>set rs. status r = ''BELOW_THRESHOLD''
                then [Print_main Recommendation, Print_main (Lowest_matching lowest),
                      Print_main (Suggested_threshold
                        (py_max (Num (15 / 100)) (pf_sub lowest (Num (5 / 100)))))]
                else [],
                Inr ())"
proof (cases "\<exists>r\<in>set rs. status r = ''BELOW_THRESHOLD''")
  case False
  then have "filter (\<lambda>r. status r = ''BELOW_THRESHOLD'') rs = []"
    by (auto simp: filter_empty_conv)
  with False show ?thesis
    by (simp add: recommendation_def ret_def)
next
  case True
  let ?bs = "filter (\<lambda>r. status r = ''BELOW_THRESHOLD'') rs"
  let ?scores = "map (\<lambda>r. get_top_score r (Num 0)) ?bs"
  from True have ne: "?bs \<noteq> []"
    by (auto simp: filter_empty_conv)
  then have pos: "0 < length ?bs"
    by simp
  from ne have "?scores \<noteq> []"
    by simp
  then obtain lowest where l: "py_min ?scores = Inr lowest"
    using py_min_Inr by blast
  with True pos ne show ?thesis
    unfolding recommendation_def below_scores_ok [OF assms]
    by (intro exI [of _ lowest]) (simp add: bind_io_def emit_def lift_def ret_def)
qed

lemma get_embedding_no_main: "Print_main l \<notin> set (fst (get_embedding w q))"
  by (simp add: get_embedding_def io_simps split: option.splits sum.splits)

lemma search_vector_no_main: "Print_main l \<notin> set (fst (search_vector w v p n))"
  by (simp add: search_vector_def io_simps split: sum.splits)

lemma search_fts_no_main: "Print_main l \<notin> set (fst (search_fts w q p n))"
  by (simp add: search_fts_def io_simps Let_def split: sum.splits)

lemma vector_lines_no_main: "Print_main l \<notin> set (vector_lines expected ms vs)"
  by (auto simp: vector_lines_def)

lemma fts_lines_no_main: "Print_main l \<notin> set (fts_lines expected fs)"
  by (auto simp: fts_lines_def)

lemma run_test_no_main: "Print_main l \<notin> set (fst (run_test w q expected d ms))"
  by (simp add: run_test_def io_simps Let_def get_embedding_no_main search_vector_no_main
        search_fts_no_main vector_lines_no_main fts_lines_no_main split: sum.splits)

lemma run_tests_no_main: "Print_main l \<notin> set (fst (run_tests w cases ms))"
proof (induction cases)
  case Nil
  then show ?case by (simp add: ret_def)
next
  case (Cons c cases)
  obtain q expected d where c: "c = (q, expected, d)"
    by (cases c) auto
  from Cons.IH show ?case
    unfolding c
    by (simp add: run_tests_Cons run_test_no_main del: run_tests.simps split: sum.splits)
qed

lemma summary_events:
  assumes "\<forall>r\<in>set rs. status r = ''BELOW_THRESHOLD'' \<longrightarrow> top_score r \<noteq> None"
  shows "\<exists>lowest.
           (\<not> (\<exists>r\<in>set rs. status r = ''BELOW_THRESHOLD'')
            \<or> py_min (map (\<lambda>r. get_top_score r (Num 0))
                        (filter (\<lambda>r. status r = ''BELOW_THRESHOLD'') rs)) = Inr lowest)
           \<and> (\<forall>t. Print_main (Suggested_threshold t) \<in> set (fst (summary w rs ms))
                  \<longleftrightarrow> (\<exists>r\<in>set rs. status r = ''BELOW_THRESHOLD'')
                      \<and> t = py_max (Num (15 / 100)) (pf_sub lowest (Num (5 / 100))))
           \<and> (\<forall>m. Print_main (Lowest_matching m) \<in> set (fst (summary w rs ms))
                  \<longleftrightarrow> (\<exists>r\<in>set rs. status r = ''BELOW_THRESHOLD'') \<and> m = lowest)
           \<and> (Print_main Recommendation \<in> set (fst (summary w rs ms))
                  \<longleftrightarrow> (\<exists>r\<in>set rs. status r = ''BELOW_THRESHOLD''))"
proof -
  let ?sorted = "py_sorted w False (\<lambda>x. get_top_score x (Num 0)) rs"
  from recommendation_ok [OF assms] obtain lowest where
    l: "\<not> (\<exists>r\<in>set rs. status r = ''BELOW_THRESHOLD'')
            \<or> py_min (map (\<lambda>r. get_top_score r (Num 0))
                        (filter (\<lambda>r. status r = ''BELOW_THRESHOLD'') rs)) = Inr lowest"
    and r: "recommendation rs (length (filter (\<lambda>r. status r = ''BELOW_THRESHOLD'') rs))
             = (if \<exists>r\<in>set rs. status r = ''BELOW_THRESHOLD''
                then [Print_main Recommendation, Print_main (Lowest_matching lowest),
                      Print_main (Suggested_threshold
                        (py_max (Num (15 / 100)) (pf_sub lowest (Num (5 / 100)))))]
                else [],
                Inr ())"
    by blast
  have d: "Print_main (Suggested_threshold t) \<notin> set (fst (distribution ?sorted))"
    "Print_main (Lowest_matching m) \<notin> set (fst (distribution ?sorted))"
    "Print_main Recommendation \<notin> set (fst (distribution ?sorted))" for t m
    using distribution_lines by blast+
  show ?thesis
    using l d
    by (intro exI [of _ lowest])
       (auto simp: summary_def Let_def io_simps r split: sum.splits)
qed


lemma main_on_reaches_summary:
  assumes "parse_min_score w = Inr ms" and "path_exists w (DB_PATH w)"
    and "connect w (DB_PATH w) = Inr ()"
    and "count_chunks w (SCOPE_PREFIX @ ''/%'') = Inr chunk_count"
    and "count_files w (SCOPE_PREFIX @ ''/%'') = Inr file_count"
    and "snd (run_tests w cases ms) = Inr results"
  shows "snd (main_on cases w) = snd (summary w results ms)"
    and "Print_main (Suggested_threshold t) \<in> set (fst (main_on cases w))
         \<longleftrightarrow> Print_main (Suggested_threshold t) \<in> set (fst (summary w results ms))"
    and "Print_main (Lowest_matching m) \<in> set (fst (main_on cases w))
         \<longleftrightarrow> Print_main (Lowest_matching m) \<in> set (fst (summary w results ms))"
    and "Print_main Recommendation \<in> set (fst (main_on cases w))
         \<longleftrightarrow> Print_main Recommendation \<in> set (fst (summary w results ms))"
  using assms by (auto simp: main_on_def io_simps run_tests_no_main)

lemma snd_run_tests_Cons:
  "snd (run_tests w ((q, expected, d) # cases) ms)
   = (case snd (run_test w q expected d ms) of
        Inl x \<Rightarrow> Inl x
      | Inr r \<Rightarrow> (case snd (run_tests w cases ms) of Inl x \<Rightarrow> Inl x | Inr rs \<Rightarrow> Inr (r # rs)))"
  by (simp add: run_tests_Cons del: run_tests.simps split: sum.splits)

lemma snd_run_tests_Nil: "snd (run_tests w [] ms) = Inr []"
  by (simp add: ret_def)

lemma money_results:
  "snd (run_tests money_world
          [(''Can I get someone to hop on a call?'', ''money'', ''Hop on a call''),
           (''I need an executable SOW'', ''SOW'', ''SOW request'')] MIN_SCORE_DEFAULT)
   = Inr [\<lparr>status = ''BELOW_THRESHOLD'', query = ''Can I get someone to hop on a call?'',
            top_score = Some (Num (7 / 25)), above_threshold = Some 0, embed_ms = Some 12\<rparr>,
          \<lparr>status = ''FAIL'', query = ''I need an executable SOW'',
            top_score = Some (Num (7 / 25)), above_threshold = Some 0, embed_ms = Some 12\<rparr>]"
  by (simp add: snd_run_tests_Cons snd_run_tests_Nil money_below money_fail
        del: run_tests.simps)


lemma offline_results:
  "snd (run_tests offline_world
          [(''Can I get someone to hop on a call?'', ''money'', ''Hop on a call''),
           (''I need an executable SOW'', ''SOW'', ''SOW request'')] MIN_SCORE_DEFAULT)
   = Inr [\<lparr>status = ''skip'', query = ''Can I get someone to hop on a call?'',
            top_score = None, above_threshold = None, embed_ms = None\<rparr>,
          \<lparr>status = ''skip'', query = ''I need an executable SOW'',
            top_score = None, above_threshold = None, embed_ms = None\<rparr>]"
  by (simp add: snd_run_tests_Cons snd_run_tests_Nil offline_skip del: run_tests.simps)

lemma money_start:
  "parse_min_score money_world = Inr MIN_SCORE_DEFAULT"
  "path_exists money_world (DB_PATH money_world)"
  "connect money_world (DB_PATH money_world) = Inr ()"
  "count_chunks money_world (SCOPE_PREFIX @ ''/%'') = Inr 0"
  "count_files money_world (SCOPE_PREFIX @ ''/%'') = Inr 0"
  by (simp_all add: parse_min_score_def money_world_def bare_world_def)

lemma offline_start:
  "parse_min_score offline_world = Inr MIN_SCORE_DEFAULT"
  "path_exists offline_world (DB_PATH offline_world)"
  "connect offline_world (DB_PATH offline_world) = Inr ()"
  "count_chunks offline_world (SCOPE_PREFIX @ ''/%'') = Inr 0"
  "count_files offline_world (SCOPE_PREFIX @ ''/%'') = Inr 0"
  by (simp_all add: parse_min_score_def offline_world_def bare_world_def)









subsection \<open>Exit code and recommendation\<close>




text \<open>
  C7. When the run reaches its summary (as in C5), the output holds a suggested-threshold
  line exactly when some result is \<open>BELOW_THRESHOLD\<close>, and so for the line of the lowest
  matching score and for the recommendation line: with no such result the recommendation
  is left out altogether. The value suggested is \<open>max(0.15, min(scores) - 0.05)\<close> over
  the top scores of the \<open>BELOW_THRESHOLD\<close> results, as \<open>min\<close> and \<open>max\<close> compute
  it; where these top scores are finite numbers it is \<open>max(0.15, m - 0.05)\<close> for the
  least of them, \<open>m\<close>. (The line shows the value with two decimals.)
\<close>

theorem suggested_threshold_iff_below:
  assumes "parse_min_score w = Inr ms" and "path_exists w (DB_PATH w)"
    and "connect w (DB_PATH w) = Inr ()"
    and "count_chunks w (SCOPE_PREFIX @ ''/%'') = Inr chunk_count"
    and "count_files w (SCOPE_PREFIX @ ''/%'') = Inr file_count"
    and "snd (run_tests w cases ms) = Inr results"
  shows "((\<exists>t. Print_main (Suggested_threshold t) \<in> set (fst (main_on cases w)))
          \<longleftrightarrow> (\<exists>r\<in>set results. status r = ''BELOW_THRESHOLD''))
         \<and> ((\<exists>m. Print_main (Lowest_matching m) \<in> set (fst (main_on cases w)))
            \<longleftrightarrow> (\<exists>r\<in>set results. status r = ''BELOW_THRESHOLD''))
         \<and> (Print_main Recommendation \<in> set (fst (main_on cases w))
            \<longleftrightarrow> (\<exists>r\<in>set results. status r = ''BELOW_THRESHOLD''))
         \<and> (\<forall>t. Print_main (Suggested_threshold t) \<in> set (fst (main_on cases w)) \<longrightarrow>
               (\<exists>lowest.
                  py_min (map (\<lambda>r. get_top_score r (Num 0))
                            (filter (\<lambda>r. status r = ''BELOW_THRESHOLD'') results))
                    = Inr lowest
                  \<and> t = py_max (Num (15 / 100)) (pf_sub lowest (Num (5 / 100)))))
         \<and> ((\<forall>r\<in>set results. status r = ''BELOW_THRESHOLD'' \<longrightarrow>
                 (\<exists>x. top_score r = Some (Num x))) \<longrightarrow>
             (\<forall>t. Print_main (Suggested_threshold t) \<in> set (fst (main_on cases w)) \<longrightarrow>
                t = Num (max (15 / 100)
                          (Min {x. \<exists>r\<in>set results. status r = ''BELOW_THRESHOLD''
                                            \<and> top_score r = Some (Num x)}
                           - 5 / 100))))"
proof -
  let ?below = "filter (\<lambda>r. status r = ''BELOW_THRESHOLD'') results"
  let ?scores = "map (\<lambda>r. get_top_score r (Num 0)) ?below"
  let ?E = "set (fst (main_on cases w))"
  from run_tests_results_ok [OF assms(6)]
  have ok: "\<forall>r\<in>set results. status r = ''BELOW_THRESHOLD'' \<longrightarrow> top_score r \<noteq> None"
    by simp
  from summary_events [OF ok, of w ms] obtain lowest where
    l: "\<not> (\<exists>r\<in>set results. status r = ''BELOW_THRESHOLD'') \<or> py_min ?scores = Inr lowest"
    and s: "\<And>t. Print_main (Suggested_threshold t) \<in> set (fst (summary w results ms))
                  \<longleftrightarrow> (\<exists>r\<in>set results. status r = ''BELOW_THRESHOLD'')
                      \<and> t = py_max (Num (15 / 100)) (pf_sub lowest (Num (5 / 100)))"
    and m: "\<And>m. Print_main (Lowest_matching m) \<in> set (fst (summary w results ms))
                  \<longleftrightarrow> (\<exists>r\<in>set results. status r = ''BELOW_THRESHOLD'') \<and> m = lowest"
    and r: "Print_main Recommendation \<in> set (fst (summary w results ms))
                  \<longleftrightarrow> (\<exists>r\<in>set results. status r = ''BELOW_THRESHOLD'')"
    by blast
  note e = main_on_reaches_summary(2-4) [OF assms]
  have c1: "(\<exists>t. Print_main (Suggested_threshold t) \<in> ?E)
          \<longleftrightarrow> (\<exists>r\<in>set results. status r = ''BELOW_THRESHOLD'')"
    unfolding e s by blast
  have c2: "(\<exists>m. Print_main (Lowest_matching m) \<in> ?E)
            \<longleftrightarrow> (\<exists>r\<in>set results. status r = ''BELOW_THRESHOLD'')"
    unfolding e m by blast
  have c3: "Print_main Recommendation \<in> ?E
            \<longleftrightarrow> (\<exists>r\<in>set results. status r = ''BELOW_THRESHOLD'')"
    unfolding e r by blast
  have c4: "\<forall>t. Print_main (Suggested_threshold t) \<in> ?E \<longrightarrow>
               (\<exists>lowest. py_min ?scores = Inr lowest
                  \<and> t = py_max (Num (15 / 100)) (pf_sub lowest (Num (5 / 100))))"
    unfolding e s using l by blast
  have c5: "(\<forall>r\<in>set results. status r = ''BELOW_THRESHOLD'' \<longrightarrow>
                 (\<exists>x. top_score r = Some (Num x))) \<longrightarrow>
             (\<forall>t. Print_main (Suggested_threshold t) \<in> ?E \<longrightarrow>
                t = Num (max (15 / 100)
                          (Min {x. \<exists>r\<in>set results. status r = ''BELOW_THRESHOLD''
                                            \<and> top_score r = Some (Num x)}
                           - 5 / 100)))"
  proof (intro impI allI)
    fix t
    assume fin: "\<forall>r\<in>set results. status r = ''BELOW_THRESHOLD'' \<longrightarrow>
                   (\<exists>x. top_score r = Some (Num x))"
      and t: "Print_main (Suggested_threshold t) \<in> ?E"
    from t have b: "\<exists>r\<in>set results. status r = ''BELOW_THRESHOLD''"
      and tv: "t = py_max (Num (15 / 100)) (pf_sub lowest (Num (5 / 100)))"
      unfolding e s by blast+
    define xs where "xs = map (\<lambda>r. case top_score r of Some (Num x) \<Rightarrow> x | _ \<Rightarrow> 0) ?below"
    have sc: "?scores = map Num xs"
      unfolding xs_def using fin by (auto simp: get_top_score_def)
    from b have ne: "xs \<noteq> []"
      unfolding xs_def by (auto simp: filter_empty_conv)
    have st: "set xs = {x. \<exists>r\<in>set results. status r = ''BELOW_THRESHOLD''
                                            \<and> top_score r = Some (Num x)}"
      unfolding xs_def using fin by force
    from l b have "py_min ?scores = Inr lowest"
      by blast
    with py_min_Num [OF ne] have "lowest = Num (Min (set xs))"
      unfolding sc by simp
    then show "t = Num (max (15 / 100)
                          (Min {x. \<exists>r\<in>set results. status r = ''BELOW_THRESHOLD''
                                            \<and> top_score r = Some (Num x)}
                           - 5 / 100))"
      unfolding tv st [symmetric] by (simp add: pf_sub_def py_max_Num)
  qed
  from c1 c2 c3 c4 c5 show ?thesis
    by blast
qed

theorem suggested_threshold_iff_below_witness:
  "parse_min_score money_world = Inr MIN_SCORE_DEFAULT
   \<and> path_exists money_world (DB_PATH money_world)
   \<and> connect money_world (DB_PATH money_world) = Inr ()
   \<and> count_chunks money_world (SCOPE_PREFIX @ ''/%'') = Inr 0
   \<and> count_files money_world (SCOPE_PREFIX @ ''/%'') = Inr 0
   \<and> map status (projr (snd (run_tests money_world
          [(''Can I get someone to hop on a call?'', ''money'', ''Hop on a call''),
           (''I need an executable SOW'', ''SOW'', ''SOW request'')] MIN_SCORE_DEFAULT)))
       = [''BELOW_THRESHOLD'', ''FAIL'']
   \<and> Print_main (Suggested_threshold (Num (23 / 100)))
       \<in> set (fst (main_on [(''Can I get someone to hop on a call?'', ''money'', ''Hop on a call''),
                            (''I need an executable SOW'', ''SOW'', ''SOW request'')]
                    money_world))
   \<and> Print_main (Suggested_threshold (Num (28 / 100)))
       \<notin> set (fst (main_on [(''Can I get someone to hop on a call?'', ''money'', ''Hop on a call''),
                            (''I need an executable SOW'', ''SOW'', ''SOW request'')]
                    money_world))
   \<and> (\<exists>m. Print_main (Lowest_matching m)
            \<in> set (fst (main_on [(''Can I get someone to hop on a call?'', ''money'',
                                   ''Hop on a call''),
                                  (''I need an executable SOW'', ''SOW'', ''SOW request'')]
                          money_world)))
   \<and> Print_main Recommendation
       \<in> set (fst (main_on [(''Can I get someone to hop on a call?'', ''money'', ''Hop on a call''),
                            (''I need an executable SOW'', ''SOW'', ''SOW request'')]
                    money_world))
   \<and> parse_min_score offline_world = Inr MIN_SCORE_DEFAULT
   \<and> path_exists offline_world (DB_PATH offline_world)
   \<and> connect offline_world (DB_PATH offline_world) = Inr ()
   \<and> count_chunks offline_world (SCOPE_PREFIX @ ''/%'') = Inr 0
   \<and> count_files offline_world (SCOPE_PREFIX @ ''/%'') = Inr 0
   \<and> map status (projr (snd (run_tests offline_world
          [(''Can I get someone to hop on a call?'', ''money'', ''Hop on a call''),
           (''I need an executable SOW'', ''SOW'', ''SOW request'')] MIN_SCORE_DEFAULT)))
       = [''skip'', ''skip'']
   \<and> \<not> (\<exists>t. Print_main (Suggested_threshold t)
              \<in> set (fst (main_on [(''Can I get someone to hop on a call?'', ''money'',
                                     ''Hop on a call''),
                                    (''I need an executable SOW'', ''SOW'', ''SOW request'')]
                            offline_world)))
   \<and> \<not> (\<exists>m. Print_main (Lowest_matching m)
              \<in> set (fst (main_on [(''Can I get someone to hop on a call?'', ''money'',
                                     ''Hop on a call''),
                                    (''I need an executable SOW'', ''SOW'', ''SOW request'')]
                            offline_world)))
   \<and> Print_main Recommendation
       \<notin> set (fst (main_on [(''Can I get someone to hop on a call?'', ''money'', ''Hop on a call''),
                            (''I need an executable SOW'', ''SOW'', ''SOW request'')]
                    offline_world))"
proof -
  let ?below = "\<lparr>status = ''BELOW_THRESHOLD'', query = ''Can I get someone to hop on a call?'',
                  top_score = Some (Num (7 / 25)), above_threshold = Some 0,
                  embed_ms = Some 12\<rparr>"
  let ?fail = "\<lparr>status = ''FAIL'', query = ''I need an executable SOW'',
                 top_score = Some (Num (7 / 25)), above_threshold = Some 0,
                 embed_ms = Some 12\<rparr>"
  have "{x. \<exists>r\<in>set [?below, ?fail]. status r = ''BELOW_THRESHOLD''
                                  \<and> top_score r = Some (Num x)} = {7 / 25}"
    by auto
  then have m: "Min {x. \<exists>r\<in>set [?below, ?fail]. status r = ''BELOW_THRESHOLD''
                                  \<and> top_score r = Some (Num x)} = 7 / 25"
    by (simp del: set_simps)
  have x: "\<exists>x::real. x * 25 = 7"
    by (rule exI [of _ "7 / 25"]) simp
  let ?cases = "[(''Can I get someone to hop on a call?'', ''money'', ''Hop on a call''),
                 (''I need an executable SOW'', ''SOW'', ''SOW request'')]"
  note t = suggested_threshold_iff_below [OF money_start money_results]
  have b: "\<exists>r\<in>set [?below, ?fail]. status r = ''BELOW_THRESHOLD''"
    by simp
  have f: "\<forall>r\<in>set [?below, ?fail]. status r = ''BELOW_THRESHOLD'' \<longrightarrow>
             (\<exists>x. top_score r = Some (Num x))"
    using x by simp
  from t b obtain t0 where t0: "Print_main (Suggested_threshold t0) \<in> set (fst (main_on ?cases money_world))"
    by blast
  from t f have v: "\<And>t. Print_main (Suggested_threshold t) \<in> set (fst (main_on ?cases money_world))
                      \<Longrightarrow> t = Num (23 / 100)"
    unfolding m by simp
  from t0 v have i: "Print_main (Suggested_threshold (Num (23 / 100)))
                       \<in> set (fst (main_on ?cases money_world))"
    by blast
  have n: "Print_main (Suggested_threshold (Num (28 / 100)))
             \<notin> set (fst (main_on ?cases money_world))"
    using v [of "Num (28 / 100)"] by auto
  from t b have l: "\<exists>m. Print_main (Lowest_matching m) \<in> set (fst (main_on ?cases money_world))"
    and r: "Print_main Recommendation \<in> set (fst (main_on ?cases money_world))"
    by blast+
  show ?thesis
    using money_start offline_start i n l r
      suggested_threshold_iff_below [OF offline_start offline_results]
    by (simp add: money_results offline_results del: run_tests.simps)
qed

subsection \<open>Packed embeddings\<close>













end
